theory Spec2Isabelle
  imports Main
begin

section \<open>Values, project configuration and process state\<close>

text \<open>
  The router options of the project configuration are plain JavaScript values: the code
  inspects them with truthiness tests, \<^verbatim>\<open>typeof\<close>, property lookup and \<^verbatim>\<open>??\<close>.
  \<open>JObj\<close> lists the own properties of an object; \<open>JNum\<close> holds the whole numbers, which
  is all the code can tell of a number: whether it is zero.
\<close>

datatype jsval =
    JUndefined
  | JNull
  | JBool bool
  | JNum int
  | JStr string
  | JObj "(string \<times> jsval) list"

fun truthy :: "jsval \<Rightarrow> bool" where
  "truthy JUndefined = False"
| "truthy JNull = False"
| "truthy (JBool b) = b"
| "truthy (JNum n) = (n \<noteq> 0)"
| "truthy (JStr s) = (s \<noteq> [])"
| "truthy (JObj ps) = True"

text \<open>Property lookup \<^verbatim>\<open>obj[key]\<close>: a missing property reads as \<^verbatim>\<open>undefined\<close>.\<close>

definition getProp :: "(string \<times> jsval) list \<Rightarrow> string \<Rightarrow> jsval" where
  "getProp ps key = (case map_of ps key of Some v \<Rightarrow> v | None \<Rightarrow> JUndefined)"

text \<open>The nullish coalescing operator \<^verbatim>\<open>a ?? b\<close>.\<close>

definition nullish :: "jsval \<Rightarrow> jsval \<Rightarrow> jsval" where
  "nullish a b = (case a of JUndefined \<Rightarrow> b | JNull \<Rightarrow> b | _ \<Rightarrow> a)"

text \<open>
  \<open>RouterOptions\<close> is \<^verbatim>\<open>exp.extra.router\<close>; in \<open>ExpoConfig\<close> the field \<open>router\<close> is
  \<^verbatim>\<open>exp.extra?.router\<close> (\<open>None\<close> when \<^verbatim>\<open>extra\<close> or \<^verbatim>\<open>router\<close> is missing) and
  \<open>web_output\<close> is \<^verbatim>\<open>(exp.web || {}).output\<close>.
\<close>

record RouterOptions =
  asyncRoutes :: jsval
  unstable_src :: "string option"

record ExpoConfig =
  router :: "RouterOptions option"
  web_output :: "string option"

record ProjectConfig =
  exp :: ExpoConfig

text \<open>
  The mutable state of the process: the module-level variable \<^verbatim>\<open>config\<close> and
  \<^verbatim>\<open>process.env\<close>, which holds strings only.
\<close>

record process_state =
  config :: "ProjectConfig option"
  process_env :: "string \<rightharpoonup> string"

text \<open>
  The collaborators the module imports: \<^verbatim>\<open>getConfig\<close> of expo/config, \<^verbatim>\<open>fs.statSync\<close>
  with \<^verbatim>\<open>throwIfNoEntry: false\<close> (\<open>None\<close> for no entry, else whether the entry is a
  directory), \<^verbatim>\<open>resolveFrom\<close> (\<open>None\<close> when the module is not found, where it throws) and
  the functions of \<^verbatim>\<open>path\<close>.
\<close>

record externals =
  getConfig :: "string \<Rightarrow> ProjectConfig"
  statSync :: "string \<Rightarrow> bool option"
  resolveFrom :: "string \<Rightarrow> string \<Rightarrow> string option"
  path_join :: "string \<Rightarrow> string \<Rightarrow> string"
  path_relative :: "string \<Rightarrow> string \<Rightarrow> string"
  path_dirname :: "string \<Rightarrow> string"

datatype error =
    AsyncRoutesNotSupported
  | ModuleNotFound
  | TypeError

text \<open>
  A read \<^verbatim>\<open>process.env[key]\<close> used as a condition: the value when it is set and not the
  empty string.
\<close>

definition truthyEnv :: "process_state \<Rightarrow> string \<Rightarrow> string option" where
  "truthyEnv st key =
     (case process_env st key of
        None \<Rightarrow> None
      | Some v \<Rightarrow> if v = [] then None else Some v)"

definition setEnv :: "string \<Rightarrow> string \<Rightarrow> process_state \<Rightarrow> process_state" where
  "setEnv key v st = st\<lparr>process_env := (process_env st)(key \<mapsto> v)\<rparr>"

text \<open>\<^verbatim>\<open>String.prototype.toUpperCase\<close> on the ASCII letters.\<close>

definition toUpperCase_char :: "char \<Rightarrow> char" where
  "toUpperCase_char c =
     (case map_of (zip ''abcdefghijklmnopqrstuvwxyz'' ''ABCDEFGHIJKLMNOPQRSTUVWXYZ'') c of
        Some u \<Rightarrow> u
      | None \<Rightarrow> c)"

definition toUpperCase :: "string \<Rightarrow> string" where
  "toUpperCase s = map toUpperCase_char s"

section \<open>ConfigResolver\<close>

text \<open>
  \<^verbatim>\<open>
  let config: undefined | ProjectConfig;
  function getConfigMemo(projectRoot: string) {
    if (!config || process.env._EXPO_INTERNAL_TESTING) {
      config = getConfig(projectRoot);
    }
    return config;
  }
  \<close>
\<close>

definition getConfigMemo ::
  "externals \<Rightarrow> string \<Rightarrow> process_state \<Rightarrow> ProjectConfig \<times> process_state" where
  "getConfigMemo x projectRoot st =
     (case config st of
        None \<Rightarrow> (getConfig x projectRoot, st\<lparr>config := Some (getConfig x projectRoot)\<rparr>)
      | Some c \<Rightarrow>
          if truthyEnv st ''_EXPO_INTERNAL_TESTING'' \<noteq> None
          then (getConfig x projectRoot, st\<lparr>config := Some (getConfig x projectRoot)\<rparr>)
          else (c, st))"

section \<open>RouterModeResolver\<close>

text \<open>The environment name \<^verbatim>\<open>process.env.NODE_ENV || process.env.BABEL_ENV\<close>.\<close>

definition buildEnv :: "process_state \<Rightarrow> string option" where
  "buildEnv st =
     (case truthyEnv st ''NODE_ENV'' of
        Some v \<Rightarrow> Some v
      | None \<Rightarrow> process_env st ''BABEL_ENV'')"

text \<open>
  Lines 29 to 38: the setting stays \<^verbatim>\<open>undefined\<close> unless \<^verbatim>\<open>asyncRoutes\<close> is truthy and
  a string, or truthy and an object, where the platform's entry is read and, when that is
  nullish, the entry \<^verbatim>\<open>default\<close>.
\<close>

definition asyncRoutesSetting :: "ExpoConfig \<Rightarrow> string \<Rightarrow> jsval" where
  "asyncRoutesSetting e platform =
     (case router e of
        None \<Rightarrow> JUndefined
      | Some r \<Rightarrow>
          if truthy (asyncRoutes r)
          then (case asyncRoutes r of
                  JStr s \<Rightarrow> JStr s
                | JObj ps \<Rightarrow> nullish (getProp ps platform) (getProp ps ''default'')
                | _ \<Rightarrow> JUndefined)
          else JUndefined)"

text \<open>
  \<^verbatim>\<open>[env, true].includes(asyncRoutesSetting)\<close>, where \<^verbatim>\<open>env\<close> is a string or
  \<^verbatim>\<open>undefined\<close>: \<^verbatim>\<open>includes\<close> compares with SameValueZero.
\<close>

definition includesEnvOrTrue :: "string option \<Rightarrow> jsval \<Rightarrow> bool" where
  "includesEnvOrTrue env setting =
     (case setting of
        JUndefined \<Rightarrow> env = None
      | JStr s \<Rightarrow> env = Some s
      | JBool b \<Rightarrow> b
      | _ \<Rightarrow> False)"

definition importModeEnvVar :: "string \<Rightarrow> string" where
  "importModeEnvVar platform = ''EXPO_ROUTER_IMPORT_MODE_'' @ toUpperCase platform"

text \<open>
  \<open>getExpoRouterImportMode\<close>, lines 20 to 60. The result carries the state the call
  leaves behind, also when it throws.
\<close>

definition getExpoRouterImportMode ::
  "externals \<Rightarrow> string \<Rightarrow> string \<Rightarrow> process_state \<Rightarrow> (error + string) \<times> process_state" where
  "getExpoRouterImportMode x projectRoot platform st =
     (let envVar = importModeEnvVar platform in
      case truthyEnv st envVar of
        Some v \<Rightarrow> (Inr v, st)
      | None \<Rightarrow>
          (let env = buildEnv st;
               (cfg, st1) = getConfigMemo x projectRoot st;
               setting = asyncRoutesSetting (exp cfg) platform;
               mode = (if includesEnvOrTrue env setting then ''lazy'' else ''sync'')
           in if env = Some ''production'' \<and> mode = ''lazy''
              then (Inl AsyncRoutesNotSupported, st1)
              else (let mode' = (if platform = ''web'' \<and> web_output (exp cfg) = Some ''static''
                                 then ''sync'' else mode)
                    in (Inr mode', setEnv envVar mode' st1))))"

section \<open>AppRootResolver\<close>

definition directoryExistsSync :: "externals \<Rightarrow> string \<Rightarrow> bool" where
  "directoryExistsSync x file = (case statSync x file of None \<Rightarrow> False | Some d \<Rightarrow> d)"

definition getRouterDirectory :: "externals \<Rightarrow> string \<Rightarrow> string" where
  "getRouterDirectory x projectRoot =
     (if directoryExistsSync x (path_join x projectRoot ''src/app'')
      then ''./src/app'' else ''./app'')"

text \<open>\<^verbatim>\<open>exp.extra?.router?.unstable_src || getRouterDirectory(projectRoot)\<close>.\<close>

definition customSrc :: "externals \<Rightarrow> ExpoConfig \<Rightarrow> string \<Rightarrow> string" where
  "customSrc x e projectRoot =
     (case router e of
        None \<Rightarrow> getRouterDirectory x projectRoot
      | Some r \<Rightarrow>
          (case unstable_src r of
             None \<Rightarrow> getRouterDirectory x projectRoot
           | Some s \<Rightarrow> if s = [] then getRouterDirectory x projectRoot else s))"

definition startsWithSlash :: "string \<Rightarrow> bool" where
  "startsWithSlash s = (case s of [] \<Rightarrow> False | c # _ \<Rightarrow> c = CHR ''/'')"

definition getExpoRouterAbsoluteAppRoot ::
  "externals \<Rightarrow> string \<Rightarrow> process_state \<Rightarrow> string \<times> process_state" where
  "getExpoRouterAbsoluteAppRoot x projectRoot st =
     (case truthyEnv st ''EXPO_ROUTER_ABS_APP_ROOT'' of
        Some v \<Rightarrow> (v, st)
      | None \<Rightarrow>
          (let (cfg, st1) = getConfigMemo x projectRoot st;
               src = customSrc x (exp cfg) projectRoot;
               appFolder = (if startsWithSlash src then src else path_join x projectRoot src)
           in (appFolder, setEnv ''EXPO_ROUTER_ABS_APP_ROOT'' appFolder st1)))"

definition getExpoRouterAppRoot ::
  "externals \<Rightarrow> string \<Rightarrow> process_state \<Rightarrow> (error + string) \<times> process_state" where
  "getExpoRouterAppRoot x projectRoot st =
     (case truthyEnv st ''EXPO_ROUTER_APP_ROOT_2'' of
        Some v \<Rightarrow> (Inr v, st)
      | None \<Rightarrow>
          (case resolveFrom x projectRoot ''expo-router/entry'' of
             None \<Rightarrow> (Inl ModuleNotFound, st)
           | Some routerEntry \<Rightarrow>
               (let (appFolder, st1) = getExpoRouterAbsoluteAppRoot x projectRoot st;
                    appRoot = path_relative x (path_dirname x routerEntry) appFolder
                in (Inr appRoot, setEnv ''EXPO_ROUTER_APP_ROOT_2'' appRoot st1))))"

section \<open>Syntax trees\<close>

text \<open>
  The nodes of the syntax tree that the two visitors inspect or build, with the fields
  they read. \<open>MemberExpression object property computed\<close>,
  \<open>AssignmentExpression operator left right\<close>, \<open>VariableDeclarator id init\<close>,
  \<open>VariableDeclaration kind declarations\<close>, \<open>ExportSpecifier local exported\<close>,
  \<open>ExportNamedDeclaration declaration specifiers\<close> and
  \<open>ExportDefaultDeclaration declaration\<close> are the nodes of those names.
  \<open>Declaration type id children\<close> is any other declaration (of a function, a class, a
  type, an enum, a namespace) with its remaining children, and \<open>Other type children\<close> is
  any other node (a call, a statement, a pattern, an export-all declaration) with its
  children in the order the traversal visits them.
\<close>

datatype node =
    Identifier string
  | StringLiteral string
  | BooleanLiteral bool
  | MemberExpression node node bool
  | AssignmentExpression string node node
  | ObjectProperty node node
  | ObjectExpression "node list"
  | VariableDeclarator node "node option"
  | VariableDeclaration string "node list"
  | ExportSpecifier node node
  | ExportNamedDeclaration "node option" "node list"
  | ExportDefaultDeclaration "node option"
  | Declaration string "node option" "node list"
  | Other string "node list"

text \<open>\<^verbatim>\<open>t.isIdentifier(node, { name })\<close>.\<close>

fun isIdentifier :: "node \<Rightarrow> string \<Rightarrow> bool" where
  "isIdentifier (Identifier n) name = (n = name)"
| "isIdentifier _ name = False"

section \<open>EnvInliningPass\<close>

text \<open>
  What the plugin reads from its caller and from the file: \<^verbatim>\<open>api.caller(getPlatform)\<close>,
  \<^verbatim>\<open>api.caller(getPossibleProjectRoot)\<close> and \<^verbatim>\<open>state.file.opts.root\<close>.
\<close>

record caller =
  platform :: "string option"
  possibleProjectRoot :: "string option"
  file_root :: "string option"

text \<open>\<^verbatim>\<open>possibleProjectRoot || state.file.opts.root || ''\<close>.\<close>

definition projectRootOf :: "caller \<Rightarrow> string" where
  "projectRootOf c =
     (case possibleProjectRoot c of
        Some r \<Rightarrow> if r \<noteq> [] then r else (case file_root c of Some f \<Rightarrow> f | None \<Rightarrow> [])
      | None \<Rightarrow> (case file_root c of Some f \<Rightarrow> f | None \<Rightarrow> []))"

text \<open>
  Lines 146 to 203, the chain of tests on \<^verbatim>\<open>parent.node.property\<close>: \<open>prop\<close> is that
  property and \<open>inAssignment\<close> is \<^verbatim>\<open>parent.parentPath.isAssignmentExpression()\<close>. The
  result is the literal that replaces \<^verbatim>\<open>parent\<close>, or \<open>None\<close> when no branch is taken.
\<close>

definition inlineValue ::
  "externals \<Rightarrow> caller \<Rightarrow> node \<Rightarrow> bool \<Rightarrow> process_state
     \<Rightarrow> (error + node option) \<times> process_state" where
  "inlineValue x c prop inAssignment st =
     (let projectRoot = projectRootOf c in
      if isIdentifier prop ''EXPO_PROJECT_ROOT'' \<and> \<not> inAssignment
      then (Inr (Some (StringLiteral projectRoot)), st)
      else if isIdentifier prop ''EXPO_PUBLIC_USE_STATIC'' \<and> \<not> inAssignment
      then (if platform c = Some ''web''
            then (Inr (Some (BooleanLiteral
                    (process_env st ''EXPO_PUBLIC_USE_STATIC'' = Some ''true'' \<or>
                     process_env st ''EXPO_PUBLIC_USE_STATIC'' = Some ''1''))), st)
            else (Inr (Some (BooleanLiteral False)), st))
      else if process_env st ''NODE_ENV'' \<noteq> Some ''test'' \<and>
              isIdentifier prop ''EXPO_ROUTER_ABS_APP_ROOT'' \<and> \<not> inAssignment
      then (case getExpoRouterAbsoluteAppRoot x projectRoot st of
              (v, st') \<Rightarrow> (Inr (Some (StringLiteral v)), st'))
      else if process_env st ''NODE_ENV'' \<noteq> Some ''test'' \<and>
              isIdentifier prop ''EXPO_ROUTER_APP_ROOT'' \<and> \<not> inAssignment
      then (case getExpoRouterAppRoot x projectRoot st of
              (Inl e, st') \<Rightarrow> (Inl e, st')
            | (Inr v, st') \<Rightarrow> (Inr (Some (StringLiteral v)), st'))
      else (case platform c of
              None \<Rightarrow> (Inr None, st)
            | Some p \<Rightarrow>
                if p \<noteq> [] \<and> isIdentifier prop (importModeEnvVar p) \<and> \<not> inAssignment
                then (case getExpoRouterImportMode x projectRoot p st of
                        (Inl e, st') \<Rightarrow> (Inl e, st')
                      | (Inr v, st') \<Rightarrow> (Inr (Some (StringLiteral v)), st'))
                else (Inr None, st)))"

text \<open>
  The visitor \<^verbatim>\<open>MemberExpression(path, state)\<close>, lines 133 to 204: \<open>n\<close> is
  \<^verbatim>\<open>path.node\<close>, \<open>parent\<close> is \<^verbatim>\<open>path.parentPath.node\<close> and \<open>inAssignment\<close> says whether
  the parent of \<open>parent\<close> is an assignment expression. The result is the literal that
  replaces \<open>parent\<close>, if any.
\<close>

definition visitMemberExpression ::
  "externals \<Rightarrow> caller \<Rightarrow> node \<Rightarrow> node \<Rightarrow> bool \<Rightarrow> process_state
     \<Rightarrow> (error + node option) \<times> process_state" where
  "visitMemberExpression x c n parent inAssignment st =
     (case n of
        MemberExpression obj prop computed \<Rightarrow>
          if \<not> isIdentifier obj ''process'' \<or> \<not> isIdentifier prop ''env''
          then (Inr None, st)
          else (case parent of
                  MemberExpression pobj pprop pcomputed \<Rightarrow> inlineValue x c pprop inAssignment st
                | _ \<Rightarrow> (Inr None, st))
      | _ \<Rightarrow> (Inr None, st))"

text \<open>
  The traversal that runs the visitor. Babel enters the nodes in pre-order, the children
  of a node in the order of its visitor keys, and calls the visitor on every member
  expression. The visitor acts only when the parent of the node it is called on is a
  member expression too, and then on that parent; so the traversal runs it where it
  stands at the parent \<open>MemberExpression obj prop computed\<close>: on \<open>obj\<close>, and, when the
  parent is not replaced, below \<open>obj\<close> and below \<open>prop\<close>. (Called on \<open>prop\<close>, the visitor
  finds that the parent's property is no identifier and returns; called on a member
  expression under any other node, it returns at line 143.) A literal that replaces a
  node has no children to visit. \<open>a\<close> says whether the parent of the node at hand is
  an assignment expression. The first error ends the traversal, as the exception does.

  \<^verbatim>\<open>replaceWith\<close> checks the new node against the field of the parent that holds it.
  The model takes a replaced member expression to stand where an expression may stand,
  so that a literal passes the check. The positions, other than the left of an
  assignment expression, that admit assignment targets only (the left of a
  \<^verbatim>\<open>for\<close>-\<^verbatim>\<open>in\<close> statement, an element of an array pattern, a rest element) are left out
  of the model.
\<close>

fun traverse ::
  "externals \<Rightarrow> caller \<Rightarrow> bool \<Rightarrow> node \<Rightarrow> process_state \<Rightarrow> (error + node) \<times> process_state"
and traverse_list ::
  "externals \<Rightarrow> caller \<Rightarrow> bool \<Rightarrow> node list \<Rightarrow> process_state
     \<Rightarrow> (error + node list) \<times> process_state"
and traverse_opt ::
  "externals \<Rightarrow> caller \<Rightarrow> bool \<Rightarrow> node option \<Rightarrow> process_state
     \<Rightarrow> (error + node option) \<times> process_state"
where
  "traverse x c a (Identifier s) st = (Inr (Identifier s), st)"
| "traverse x c a (StringLiteral s) st = (Inr (StringLiteral s), st)"
| "traverse x c a (BooleanLiteral b) st = (Inr (BooleanLiteral b), st)"
| "traverse x c a (MemberExpression obj prop computed) st =
     (case visitMemberExpression x c obj (MemberExpression obj prop computed) a st of
        (Inl e, st') \<Rightarrow> (Inl e, st')
      | (Inr (Some literal), st') \<Rightarrow> (Inr literal, st')
      | (Inr None, st') \<Rightarrow>
          (case traverse x c False obj st' of
             (Inl e, st1) \<Rightarrow> (Inl e, st1)
           | (Inr obj', st1) \<Rightarrow>
               (case traverse x c False prop st1 of
                  (Inl e, st2) \<Rightarrow> (Inl e, st2)
                | (Inr prop', st2) \<Rightarrow> (Inr (MemberExpression obj' prop' computed), st2))))"
| "traverse x c a (AssignmentExpression operator left right) st =
     (case traverse x c True left st of
        (Inl e, st1) \<Rightarrow> (Inl e, st1)
      | (Inr left', st1) \<Rightarrow>
          (case traverse x c True right st1 of
             (Inl e, st2) \<Rightarrow> (Inl e, st2)
           | (Inr right', st2) \<Rightarrow> (Inr (AssignmentExpression operator left' right'), st2)))"
| "traverse x c a (ObjectProperty k v) st =
     (case traverse x c False k st of
        (Inl e, st1) \<Rightarrow> (Inl e, st1)
      | (Inr k', st1) \<Rightarrow>
          (case traverse x c False v st1 of
             (Inl e, st2) \<Rightarrow> (Inl e, st2)
           | (Inr v', st2) \<Rightarrow> (Inr (ObjectProperty k' v'), st2)))"
| "traverse x c a (ObjectExpression ps) st =
     (case traverse_list x c False ps st of
        (Inl e, st1) \<Rightarrow> (Inl e, st1)
      | (Inr ps', st1) \<Rightarrow> (Inr (ObjectExpression ps'), st1))"
| "traverse x c a (VariableDeclarator i init) st =
     (case traverse x c False i st of
        (Inl e, st1) \<Rightarrow> (Inl e, st1)
      | (Inr i', st1) \<Rightarrow>
          (case traverse_opt x c False init st1 of
             (Inl e, st2) \<Rightarrow> (Inl e, st2)
           | (Inr init', st2) \<Rightarrow> (Inr (VariableDeclarator i' init'), st2)))"
| "traverse x c a (VariableDeclaration kind ds) st =
     (case traverse_list x c False ds st of
        (Inl e, st1) \<Rightarrow> (Inl e, st1)
      | (Inr ds', st1) \<Rightarrow> (Inr (VariableDeclaration kind ds'), st1))"
| "traverse x c a (ExportSpecifier l e) st =
     (case traverse x c False l st of
        (Inl er, st1) \<Rightarrow> (Inl er, st1)
      | (Inr l', st1) \<Rightarrow>
          (case traverse x c False e st1 of
             (Inl er, st2) \<Rightarrow> (Inl er, st2)
           | (Inr e', st2) \<Rightarrow> (Inr (ExportSpecifier l' e'), st2)))"
| "traverse x c a (ExportNamedDeclaration d specs) st =
     (case traverse_opt x c False d st of
        (Inl e, st1) \<Rightarrow> (Inl e, st1)
      | (Inr d', st1) \<Rightarrow>
          (case traverse_list x c False specs st1 of
             (Inl e, st2) \<Rightarrow> (Inl e, st2)
           | (Inr specs', st2) \<Rightarrow> (Inr (ExportNamedDeclaration d' specs'), st2)))"
| "traverse x c a (ExportDefaultDeclaration d) st =
     (case traverse_opt x c False d st of
        (Inl e, st1) \<Rightarrow> (Inl e, st1)
      | (Inr d', st1) \<Rightarrow> (Inr (ExportDefaultDeclaration d'), st1))"
| "traverse x c a (Declaration ty i ns) st =
     (case traverse_opt x c False i st of
        (Inl e, st1) \<Rightarrow> (Inl e, st1)
      | (Inr i', st1) \<Rightarrow>
          (case traverse_list x c False ns st1 of
             (Inl e, st2) \<Rightarrow> (Inl e, st2)
           | (Inr ns', st2) \<Rightarrow> (Inr (Declaration ty i' ns'), st2)))"
| "traverse x c a (Other ty ns) st =
     (case traverse_list x c False ns st of
        (Inl e, st1) \<Rightarrow> (Inl e, st1)
      | (Inr ns', st1) \<Rightarrow> (Inr (Other ty ns'), st1))"
| "traverse_list x c a [] st = (Inr [], st)"
| "traverse_list x c a (n # ns) st =
     (case traverse x c a n st of
        (Inl e, st1) \<Rightarrow> (Inl e, st1)
      | (Inr n', st1) \<Rightarrow>
          (case traverse_list x c a ns st1 of
             (Inl e, st2) \<Rightarrow> (Inl e, st2)
           | (Inr ns', st2) \<Rightarrow> (Inr (n' # ns'), st2)))"
| "traverse_opt x c a None st = (Inr None, st)"
| "traverse_opt x c a (Some n) st =
     (case traverse x c a n st of
        (Inl e, st1) \<Rightarrow> (Inl e, st1)
      | (Inr n', st1) \<Rightarrow> (Inr (Some n'), st1))"

text \<open>
  A file: the values of its leading directives and the statements of its body. The
  plugin \<open>expoRouterBabelPlugin\<close> runs its visitor over the whole file; the directives
  hold no member expression.
\<close>

record Program =
  directives :: "string list"
  body :: "node list"

definition expoRouterBabelPlugin ::
  "externals \<Rightarrow> caller \<Rightarrow> Program \<Rightarrow> process_state \<Rightarrow> (error + Program) \<times> process_state" where
  "expoRouterBabelPlugin x c p st =
     (case traverse_list x c False (body p) st of
        (Inl e, st') \<Rightarrow> (Inl e, st')
      | (Inr b, st') \<Rightarrow> (Inr (p\<lparr>body := b\<rparr>), st'))"

section \<open>ClientBoundaryPass\<close>

text \<open>
  Property reads on a node: \<^verbatim>\<open>node.id\<close>, \<^verbatim>\<open>node.name\<close> and \<^verbatim>\<open>node.exported\<close>. A node
  without the property reads as \<^verbatim>\<open>undefined\<close> (\<open>None\<close>); so does the \<^verbatim>\<open>name\<close> of a
  pattern or of a string literal.
\<close>

fun node_id :: "node \<Rightarrow> node option" where
  "node_id (VariableDeclarator i init) = Some i"
| "node_id (Declaration ty i ns) = i"
| "node_id _ = None"

fun node_name :: "node \<Rightarrow> string option" where
  "node_name (Identifier s) = Some s"
| "node_name _ = None"

fun node_exported :: "node \<Rightarrow> node option" where
  "node_exported (ExportSpecifier l e) = Some e"
| "node_exported _ = None"

text \<open>
  \<^verbatim>\<open>decl.id.name\<close> and \<^verbatim>\<open>spec.exported.name\<close>: reading \<^verbatim>\<open>name\<close> of \<^verbatim>\<open>undefined\<close> throws
  a TypeError; reading it of a node gives a string or \<^verbatim>\<open>undefined\<close>.
\<close>

definition id_name :: "node \<Rightarrow> error + string option" where
  "id_name n = (case node_id n of None \<Rightarrow> Inl TypeError | Some i \<Rightarrow> Inr (node_name i))"

definition exported_name :: "node \<Rightarrow> error + string option" where
  "exported_name n =
     (case node_exported n of None \<Rightarrow> Inl TypeError | Some e \<Rightarrow> Inr (node_name e))"

text \<open>\<^verbatim>\<open>xs.map(f)\<close> for an \<open>f\<close> that may throw: the first exception ends the loop.\<close>

fun mapE :: "('a \<Rightarrow> error + 'b) \<Rightarrow> 'a list \<Rightarrow> error + 'b list" where
  "mapE f [] = Inr []"
| "mapE f (y # ys) =
     (case f y of
        Inl e \<Rightarrow> Inl e
      | Inr v \<Rightarrow> (case mapE f ys of Inl e \<Rightarrow> Inl e | Inr vs \<Rightarrow> Inr (v # vs)))"

text \<open>
  The visitor \<^verbatim>\<open>ExportNamedDeclaration\<close>, lines 233 to 244: the names it pushes. The
  list \<^verbatim>\<open>node.specifiers\<close> is truthy also when it is empty.
\<close>

definition namedExports :: "node option \<Rightarrow> node list \<Rightarrow> error + string option list" where
  "namedExports declaration specifiers =
     (case declaration of
        Some (VariableDeclaration kind ds) \<Rightarrow> mapE id_name ds
      | Some d \<Rightarrow> (case id_name d of Inl e \<Rightarrow> Inl e | Inr n \<Rightarrow> Inr [n])
      | None \<Rightarrow> mapE exported_name specifiers)"

text \<open>The visitor \<^verbatim>\<open>ExportDefaultDeclaration\<close>, lines 245 to 250.\<close>

definition defaultExports :: "node option \<Rightarrow> string option list" where
  "defaultExports declaration =
     (case declaration of Some d \<Rightarrow> [Some ''default''] | None \<Rightarrow> [])"

definition appendE :: "error + 'a list \<Rightarrow> error + 'a list \<Rightarrow> error + 'a list" where
  "appendE r1 r2 =
     (case r1 of
        Inl e \<Rightarrow> Inl e
      | Inr xs \<Rightarrow> (case r2 of Inl e \<Rightarrow> Inl e | Inr ys \<Rightarrow> Inr (xs @ ys)))"

text \<open>
  \<^verbatim>\<open>path.traverse\<close> with the two visitors, lines 232 to 251: the names pushed onto
  \<^verbatim>\<open>exports\<close>, in the order of the pre-order traversal. A visitor runs when its node is
  entered, before the children of the node.
\<close>

fun collectExports :: "node \<Rightarrow> error + string option list"
and collectExports_list :: "node list \<Rightarrow> error + string option list"
and collectExports_opt :: "node option \<Rightarrow> error + string option list"
where
  "collectExports (Identifier s) = Inr []"
| "collectExports (StringLiteral s) = Inr []"
| "collectExports (BooleanLiteral b) = Inr []"
| "collectExports (MemberExpression obj prop computed) =
     appendE (collectExports obj) (collectExports prop)"
| "collectExports (AssignmentExpression operator left right) =
     appendE (collectExports left) (collectExports right)"
| "collectExports (ObjectProperty k v) = appendE (collectExports k) (collectExports v)"
| "collectExports (ObjectExpression ps) = collectExports_list ps"
| "collectExports (VariableDeclarator i init) =
     appendE (collectExports i) (collectExports_opt init)"
| "collectExports (VariableDeclaration kind ds) = collectExports_list ds"
| "collectExports (ExportSpecifier l e) = appendE (collectExports l) (collectExports e)"
| "collectExports (ExportNamedDeclaration d specs) =
     appendE (namedExports d specs)
       (appendE (collectExports_opt d) (collectExports_list specs))"
| "collectExports (ExportDefaultDeclaration d) =
     appendE (Inr (defaultExports d)) (collectExports_opt d)"
| "collectExports (Declaration ty i ns) =
     appendE (collectExports_opt i) (collectExports_list ns)"
| "collectExports (Other ty ns) = collectExports_list ns"
| "collectExports_list [] = Inr []"
| "collectExports_list (n # ns) = appendE (collectExports n) (collectExports_list ns)"
| "collectExports_opt None = Inr []"
| "collectExports_opt (Some n) = collectExports n"

text \<open>
  What the plugin reads from its caller: \<^verbatim>\<open>caller?.isRSC ?? false\<close> and
  \<^verbatim>\<open>api.caller(getServerRoot)\<close>. \<open>ClientReferences\<close> is the value stored under
  \<^verbatim>\<open>state.file.metadata['clientReferences']\<close>.
\<close>

record rsc_caller =
  isServer :: bool
  serverRoot :: string

record ClientReferences =
  entryPoint :: string
  exports :: "string option list"

definition outputKey :: "externals \<Rightarrow> string \<Rightarrow> string \<Rightarrow> string" where
  "outputKey x root filename = ''/'' @ path_relative x root filename"

text \<open>
  The object literal of lines 268 to 276 and 287 to 298, for the export \<open>name\<close>:
  \<^verbatim>\<open>{ $$typeof: "react.client.reference", $$async: false, $$id: `${outputKey}#${name}`,
  name: name }\<close>.
\<close>

definition descriptor :: "string \<Rightarrow> string \<Rightarrow> node" where
  "descriptor key name =
     ObjectExpression
       [ObjectProperty (Identifier ''$$typeof'') (StringLiteral ''react.client.reference''),
        ObjectProperty (Identifier ''$$async'') (BooleanLiteral False),
        ObjectProperty (Identifier ''$$id'') (StringLiteral (key @ ''#'' @ name)),
        ObjectProperty (Identifier ''name'') (StringLiteral name)]"

text \<open>
  The body of the loop of lines 262 to 304: the statement pushed for one entry of
  \<^verbatim>\<open>exports\<close>. The builders of @babel/types check the types of their arguments:
  \<^verbatim>\<open>t.identifier(exp)\<close> throws a TypeError when \<^verbatim>\<open>exp\<close> is not a string. The loop
  variable \<^verbatim>\<open>exp\<close> is \<open>exported\<close> here.
\<close>

definition clientReference :: "string \<Rightarrow> string option \<Rightarrow> error + node" where
  "clientReference key exported =
     (if exported = Some ''default''
      then Inr (ExportDefaultDeclaration (Some (descriptor key ''default'')))
      else (case exported of
              None \<Rightarrow> Inl TypeError
            | Some name \<Rightarrow>
                Inr (ExportNamedDeclaration
                      (Some (VariableDeclaration ''const''
                               [VariableDeclarator (Identifier name)
                                  (Some (descriptor key name))]))
                      [])))"

text \<open>
  The visitor \<^verbatim>\<open>Program(path, state)\<close>, lines 219 to 312, on the file \<open>p\<close> named
  \<open>filename\<close>; \<open>metadata\<close> is the entry \<^verbatim>\<open>clientReferences\<close> of the file's metadata
  before the call, and the result holds the file and that entry after it.
\<close>

definition expoRouterServerComponentClientReferencesPlugin ::
  "externals \<Rightarrow> rsc_caller \<Rightarrow> string \<Rightarrow> Program \<Rightarrow> ClientReferences option
     \<Rightarrow> error + (Program \<times> ClientReferences option)" where
  "expoRouterServerComponentClientReferencesPlugin x c filename p metadata =
     (if \<not> list_ex (\<lambda>d. d = ''use client'') (directives p)
      then Inr (p, metadata)
      else
        (let key = outputKey x (serverRoot c) filename in
         case collectExports_list (body p) of
           Inl e \<Rightarrow> Inl e
         | Inr names \<Rightarrow>
             if isServer c
             then (case mapE (clientReference key) names of
                     Inl e \<Rightarrow> Inl e
                   | Inr stubs \<Rightarrow> Inr (p\<lparr>body := stubs, directives := []\<rparr>, metadata))
             else Inr (p, Some \<lparr>entryPoint = key, exports = names\<rparr>)))"

text \<open>
  Reading a generated statement back: the object it exports, the value of a property
  of that object, and the string under \<^verbatim>\<open>$$id\<close>.
\<close>

definition stubDescriptor :: "node \<Rightarrow> node option" where
  "stubDescriptor n =
     (case n of
        ExportDefaultDeclaration (Some obj) \<Rightarrow> Some obj
      | ExportNamedDeclaration (Some (VariableDeclaration kind [VariableDeclarator i (Some obj)])) specs
          \<Rightarrow> Some obj
      | _ \<Rightarrow> None)"

fun propertyValue :: "string \<Rightarrow> node list \<Rightarrow> node option" where
  "propertyValue key [] = None"
| "propertyValue key (ObjectProperty k v # ps) =
     (if isIdentifier k key then Some v else propertyValue key ps)"
| "propertyValue key (n # ps) = propertyValue key ps"

definition stubId :: "node \<Rightarrow> string option" where
  "stubId n =
     (case stubDescriptor n of
        Some (ObjectExpression ps) \<Rightarrow>
          (case propertyValue ''$$id'' ps of Some (StringLiteral s) \<Rightarrow> Some s | _ \<Rightarrow> None)
      | _ \<Rightarrow> None)"

section \<open>Notions used in the statements and proofs\<close>

text \<open>
  The expression \<^verbatim>\<open>process.env\<close> and a read \<^verbatim>\<open>process.env.NAME\<close> of it; the two flags
  say whether each access is written with brackets, which the visitor does not look at.
\<close>

definition envRead :: "bool \<Rightarrow> bool \<Rightarrow> string \<Rightarrow> node" where
  "envRead computed1 computed2 name =
     MemberExpression
       (MemberExpression (Identifier ''process'') (Identifier ''env'') computed1)
       (Identifier name) computed2"

definition isProcessEnv :: "node \<Rightarrow> bool" where
  "isProcessEnv n =
     (case n of
        MemberExpression obj prop computed \<Rightarrow>
          isIdentifier obj ''process'' \<and> isIdentifier prop ''env''
      | _ \<Rightarrow> False)"

definition isLiteral :: "node \<Rightarrow> bool" where
  "isLiteral n = (case n of StringLiteral s \<Rightarrow> True | BooleanLiteral b \<Rightarrow> True | _ \<Rightarrow> False)"

text \<open>
  Whether the chain of tests of the visitor takes one of its branches, for the property
  \<open>prop\<close> of the outer member expression and the value \<open>nodeEnv\<close> of
  \<^verbatim>\<open>process.env.NODE_ENV\<close>.
\<close>

definition takesBranch :: "caller \<Rightarrow> string option \<Rightarrow> node \<Rightarrow> bool \<Rightarrow> bool" where
  "takesBranch c nodeEnv prop inAssignment =
     (\<not> inAssignment \<and>
      (isIdentifier prop ''EXPO_PROJECT_ROOT'' \<or>
       isIdentifier prop ''EXPO_PUBLIC_USE_STATIC'' \<or>
       (nodeEnv \<noteq> Some ''test'' \<and>
          (isIdentifier prop ''EXPO_ROUTER_ABS_APP_ROOT'' \<or>
           isIdentifier prop ''EXPO_ROUTER_APP_ROOT'')) \<or>
       (case platform c of
          None \<Rightarrow> False
        | Some p \<Rightarrow> p \<noteq> [] \<and> isIdentifier prop (importModeEnvVar p))))"

text \<open>
  A computation that started in \<open>st\<close> and gave \<open>r\<close> in \<open>st'\<close> is settled when it left
  \<^verbatim>\<open>NODE_ENV\<close> as it was and when running \<open>again\<close>, from any state with that
  \<^verbatim>\<open>NODE_ENV\<close>, gives \<open>r\<close> back and changes nothing.
\<close>

definition settled ::
  "(process_state \<Rightarrow> (error + 'a) \<times> process_state) \<Rightarrow> process_state \<Rightarrow> 'a \<Rightarrow> process_state
     \<Rightarrow> bool" where
  "settled again st r st' =
     (process_env st' ''NODE_ENV'' = process_env st ''NODE_ENV'' \<and>
      (\<forall>s2. process_env s2 ''NODE_ENV'' = process_env st ''NODE_ENV''
          \<longrightarrow> again s2 = (Inr r, s2)))"

section \<open>Example inputs\<close>

text \<open>
  A project configuration with the given \<^verbatim>\<open>asyncRoutes\<close> setting and web output mode,
  collaborators for a project whose router directory is \<^verbatim>\<open>src/app\<close>, a fresh process
  with the given environment variables, and a caller building for the web.
\<close>

definition example_config :: "jsval \<Rightarrow> string option \<Rightarrow> ProjectConfig" where
  "example_config setting output =
     \<lparr>exp = \<lparr>router = Some \<lparr>asyncRoutes = setting, unstable_src = None\<rparr>,
             web_output = output\<rparr>\<rparr>"

text \<open>A configuration that differs from one project root to the next.\<close>

definition example_root_config :: "string \<Rightarrow> ProjectConfig" where
  "example_root_config root =
     \<lparr>exp = \<lparr>router = Some \<lparr>asyncRoutes = JBool False, unstable_src = Some (root @ ''/routes'')\<rparr>,
             web_output = None\<rparr>\<rparr>"

definition example_externals :: "(string \<Rightarrow> ProjectConfig) \<Rightarrow> externals" where
  "example_externals cfg =
     \<lparr>getConfig = cfg,
      statSync = (\<lambda>file. if file = ''/p/src/app'' then Some True else None),
      resolveFrom = (\<lambda>dir request.
         if request = ''expo-router/entry''
         then Some (dir @ ''/node_modules/expo-router/entry.js'') else None),
      path_join = (\<lambda>a b. a @ ''/'' @ (if take 2 b = ''./'' then drop 2 b else b)),
      path_relative = (\<lambda>a b. if a = ''/p'' then drop 3 b else ''../..'' @ drop 2 b),
      path_dirname = (\<lambda>file. take (length file - 9) file)\<rparr>"

definition example_state :: "(string \<times> string) list \<Rightarrow> process_state" where
  "example_state vars = \<lparr>config = None, process_env = map_of vars\<rparr>"

definition example_caller :: caller where
  "example_caller = \<lparr>platform = Some ''web'', possibleProjectRoot = Some ''/p'', file_root = None\<rparr>"

text \<open>
  The file \<^verbatim>\<open>"use client"; export const a = 1, b = 2; export default function Foo() {}\<close>.
\<close>

definition example_client_file :: Program where
  "example_client_file =
     \<lparr>directives = [''use client''],
      body =
        [ExportNamedDeclaration
           (Some (VariableDeclaration ''const''
                    [VariableDeclarator (Identifier ''a'') (Some (Other ''NumericLiteral'' [])),
                     VariableDeclarator (Identifier ''b'') (Some (Other ''NumericLiteral'' []))]))
           [],
         ExportDefaultDeclaration
           (Some (Declaration ''FunctionDeclaration'' (Some (Identifier ''Foo''))
                    [Other ''BlockStatement'' []]))]\<rparr>"

text \<open>The file \<^verbatim>\<open>"use client"; export const { a } = obj;\<close>.\<close>

definition example_pattern_file :: Program where
  "example_pattern_file =
     \<lparr>directives = [''use client''],
      body =
        [ExportNamedDeclaration
           (Some (VariableDeclaration ''const''
                    [VariableDeclarator
                       (Other ''ObjectPattern''
                          [ObjectProperty (Identifier ''a'') (Identifier ''a'')])
                       (Some (Identifier ''obj''))]))
           []]\<rparr>"

text \<open>
  The file \<^verbatim>\<open>console.log(process.env.EXPO_PROJECT_ROOT, process.env.EXPO_ROUTER_APP_ROOT,
  process.env.EXPO_ROUTER_IMPORT_MODE_WEB); process.env.EXPO_PUBLIC_USE_STATIC = x;\<close>.
\<close>

definition example_env_file :: Program where
  "example_env_file =
     \<lparr>directives = [],
      body =
        [Other ''ExpressionStatement''
           [Other ''CallExpression''
              [MemberExpression (Identifier ''console'') (Identifier ''log'') False,
               envRead False False ''EXPO_PROJECT_ROOT'',
               envRead False False ''EXPO_ROUTER_APP_ROOT'',
               envRead False False ''EXPO_ROUTER_IMPORT_MODE_WEB'']],
         Other ''ExpressionStatement''
           [AssignmentExpression ''=''
              (envRead False False ''EXPO_PUBLIC_USE_STATIC'') (Identifier ''x'')]]\<rparr>"

text \<open>The file above after the pass, for the project \<^verbatim>\<open>/p\<close> in development.\<close>

definition example_env_file_inlined :: Program where
  "example_env_file_inlined =
     \<lparr>directives = [],
      body =
        [Other ''ExpressionStatement''
           [Other ''CallExpression''
              [MemberExpression (Identifier ''console'') (Identifier ''log'') False,
               StringLiteral ''/p'',
               StringLiteral ''../../src/app'',
               StringLiteral ''lazy'']],
         Other ''ExpressionStatement''
           [AssignmentExpression ''=''
              (envRead False False ''EXPO_PUBLIC_USE_STATIC'') (Identifier ''x'')]]\<rparr>"

text \<open>The file \<^verbatim>\<open>x = process.env.NAME;\<close> and the file \<^verbatim>\<open>process.env.NAME;\<close>.\<close>

definition example_assigned_read :: "string \<Rightarrow> Program" where
  "example_assigned_read name =
     \<lparr>directives = [],
      body =
        [Other ''ExpressionStatement''
           [AssignmentExpression ''='' (Identifier ''x'') (envRead False False name)]]\<rparr>"

definition example_read :: "string \<Rightarrow> Program" where
  "example_read name =
     \<lparr>directives = [], body = [Other ''ExpressionStatement'' [envRead False False name]]\<rparr>"

section \<open>Lemmas about the resolvers and the traversal\<close>

lemma NODE_ENV_setEnv:
  "key \<noteq> ''NODE_ENV'' \<Longrightarrow> process_env (setEnv key v st) ''NODE_ENV'' = process_env st ''NODE_ENV''"
  by (simp add: setEnv_def)

lemma getConfigMemo_env: "process_env (snd (getConfigMemo x root st)) = process_env st"
  by (simp add: getConfigMemo_def split: option.splits)

lemma importModeEnvVar_neq [simp]:
  "importModeEnvVar p \<noteq> ''NODE_ENV''"
  "importModeEnvVar p \<noteq> ''EXPO_PROJECT_ROOT''"
  "importModeEnvVar p \<noteq> ''EXPO_PUBLIC_USE_STATIC''"
  "importModeEnvVar p \<noteq> ''EXPO_ROUTER_ABS_APP_ROOT''"
  "importModeEnvVar p \<noteq> ''EXPO_ROUTER_APP_ROOT''"
  by (simp_all add: importModeEnvVar_def)

lemma getExpoRouterImportMode_NODE_ENV:
  "process_env (snd (getExpoRouterImportMode x root p st)) ''NODE_ENV'' = process_env st ''NODE_ENV''"
  using getConfigMemo_env [of x root st]
  by (auto simp: getExpoRouterImportMode_def Let_def NODE_ENV_setEnv split: option.splits prod.splits)

lemma getExpoRouterAbsoluteAppRoot_NODE_ENV:
  "process_env (snd (getExpoRouterAbsoluteAppRoot x root st)) ''NODE_ENV'' = process_env st ''NODE_ENV''"
  using getConfigMemo_env [of x root st]
  by (auto simp: getExpoRouterAbsoluteAppRoot_def Let_def NODE_ENV_setEnv split: option.splits prod.splits)

lemma getExpoRouterAppRoot_NODE_ENV:
  "process_env (snd (getExpoRouterAppRoot x root st)) ''NODE_ENV'' = process_env st ''NODE_ENV''"
  using getExpoRouterAbsoluteAppRoot_NODE_ENV [of x root st]
  by (auto simp: getExpoRouterAppRoot_def Let_def NODE_ENV_setEnv split: option.splits prod.splits)



lemma inlineValue_NODE_ENV:
  "process_env (snd (inlineValue x c prop a st)) ''NODE_ENV'' = process_env st ''NODE_ENV''"
  by (simp add: inlineValue_def Let_def split_beta sum.case_eq_if option.case_eq_if
        getExpoRouterImportMode_NODE_ENV getExpoRouterAbsoluteAppRoot_NODE_ENV
        getExpoRouterAppRoot_NODE_ENV)



lemma inlineValue_None:
  "\<not> takesBranch c (process_env st ''NODE_ENV'') prop a \<Longrightarrow> inlineValue x c prop a st = (Inr None, st)"
  by (cases "platform c") (auto simp: inlineValue_def takesBranch_def Let_def)

lemma inlineValue_literal:
  "takesBranch c (process_env st ''NODE_ENV'') prop a \<Longrightarrow> inlineValue x c prop a st = (Inr r, st') \<Longrightarrow>
   \<exists>literal. r = Some literal \<and> isLiteral literal"
  by (cases "platform c")
     (auto simp: inlineValue_def takesBranch_def Let_def isLiteral_def
           split: if_splits prod.splits sum.splits)


lemma isLiteral_cases: "isLiteral n \<Longrightarrow> (\<exists>s. n = StringLiteral s) \<or> (\<exists>b. n = BooleanLiteral b)"
  by (cases n) (simp_all add: isLiteral_def)

lemma traverse_literal: "isLiteral n \<Longrightarrow> traverse x c a n st = (Inr n, st)"
  by (auto dest: isLiteral_cases)

lemma literal_shape: "isLiteral n \<Longrightarrow> \<not> isIdentifier n s \<and> \<not> isProcessEnv n"
  by (auto dest!: isLiteral_cases simp: isProcessEnv_def)

lemma visit_eq:
  "visitMemberExpression x c obj (MemberExpression obj prop computed) a st =
     (if isProcessEnv obj then inlineValue x c prop a st else (Inr None, st))"
  by (cases obj) (simp_all add: visitMemberExpression_def isProcessEnv_def)

lemma visit_None:
  assumes "visitMemberExpression x c obj (MemberExpression obj prop computed) a st = (Inr None, st')"
  shows "st' = st \<and> (isProcessEnv obj \<longrightarrow> \<not> takesBranch c (process_env st ''NODE_ENV'') prop a)"
proof (cases "isProcessEnv obj \<and> takesBranch c (process_env st ''NODE_ENV'') prop a")
  case True
  with assms have "inlineValue x c prop a st = (Inr None, st')" by (simp add: visit_eq)
  with True show ?thesis by (auto dest: inlineValue_literal)
next
  case False
  with assms show ?thesis by (auto simp: visit_eq inlineValue_None split: if_splits)
qed

lemma visit_Some:
  assumes "visitMemberExpression x c obj (MemberExpression obj prop computed) a st = (Inr (Some literal), st')"
  shows "isLiteral literal \<and> isProcessEnv obj \<and>
         process_env st' ''NODE_ENV'' = process_env st ''NODE_ENV''"
proof -
  from assms have p: "isProcessEnv obj" and i: "inlineValue x c prop a st = (Inr (Some literal), st')"
    by (auto simp: visit_eq split: if_splits)
  have "takesBranch c (process_env st ''NODE_ENV'') prop a"
    using i inlineValue_None [of c st "prop" a x] by auto
  then have "isLiteral literal" using i by (auto dest: inlineValue_literal)
  moreover have "process_env st' ''NODE_ENV'' = process_env st ''NODE_ENV''"
    using inlineValue_NODE_ENV [of x c "prop" a st] i by simp
  ultimately show ?thesis using p by simp
qed

lemma visit_stable:
  "isProcessEnv obj \<longrightarrow> \<not> takesBranch c (process_env st ''NODE_ENV'') prop a \<Longrightarrow>
   visitMemberExpression x c obj (MemberExpression obj prop computed) a st = (Inr None, st)"
  by (simp add: visit_eq inlineValue_None)

lemma takesBranch_cong:
  "(\<And>s. isIdentifier prop' s = isIdentifier prop s) \<Longrightarrow>
   takesBranch c ne prop' a = takesBranch c ne prop a"
  by (cases "platform c") (simp_all add: takesBranch_def)

lemma traverse_isIdentifier:
  "traverse x c a n st = (Inr n', st') \<Longrightarrow> isIdentifier n' s = isIdentifier n s"
proof (cases n)
  case (MemberExpression obj pr computed)
  assume t: "traverse x c a n st = (Inr n', st')"
  show ?thesis
  proof (cases "visitMemberExpression x c obj (MemberExpression obj pr computed) a st")
    case (Pair r st1)
    show ?thesis
    proof (cases r)
      case (Inl e)
      with t Pair MemberExpression show ?thesis by simp
    next
      case (Inr v)
      show ?thesis
      proof (cases v)
        case None
        with t Pair Inr MemberExpression show ?thesis
          by (auto split: prod.splits sum.splits)
      next
        case (Some literal)
        with Pair Inr have "isLiteral literal" by (auto dest: visit_Some)
        moreover from t Pair Inr Some MemberExpression have "n' = literal" by simp
        ultimately show ?thesis using MemberExpression by (simp add: literal_shape)
      qed
    qed
  qed
qed (auto split: prod.splits sum.splits)


lemma traverse_isProcessEnv:
  assumes t: "traverse x c a n st = (Inr n', st')"
  shows "isProcessEnv n' = isProcessEnv n"
proof (cases n)
  case (MemberExpression obj pr computed)
  show ?thesis
  proof (cases "visitMemberExpression x c obj (MemberExpression obj pr computed) a st")
    case (Pair r st1)
    show ?thesis
    proof (cases r)
      case (Inl e)
      with t Pair MemberExpression show ?thesis by simp
    next
      case (Inr v)
      show ?thesis
      proof (cases v)
        case None
        with t Pair Inr MemberExpression obtain obj' pr' sa sb where
          "traverse x c False obj st1 = (Inr obj', sa)" "traverse x c False pr sa = (Inr pr', sb)"
          "n' = MemberExpression obj' pr' computed"
          by (auto split: prod.splits sum.splits)
        then show ?thesis
          using MemberExpression
            traverse_isIdentifier [of x c False obj st1 obj' sa "''process''"]
            traverse_isIdentifier [of x c False pr sa pr' sb "''env''"]
          by (simp add: isProcessEnv_def)
      next
        case (Some literal)
        with Pair Inr have l: "isLiteral literal" and o: "isProcessEnv obj"
          by (auto dest: visit_Some)
        from t Pair Inr Some MemberExpression have "n' = literal" by simp
        with l have "\<not> isProcessEnv n'" by (simp add: literal_shape)
        moreover have "\<not> isProcessEnv n"
          using o MemberExpression by (cases obj) (simp_all add: isProcessEnv_def)
        ultimately show ?thesis by simp
      qed
    qed
  qed
qed (use t in \<open>auto simp: isProcessEnv_def split: prod.splits sum.splits\<close>)

lemma settledI:
  "process_env st' ''NODE_ENV'' = process_env st ''NODE_ENV'' \<Longrightarrow>
   (\<And>s2. process_env s2 ''NODE_ENV'' = process_env st ''NODE_ENV'' \<Longrightarrow> again s2 = (Inr r, s2)) \<Longrightarrow>
   settled again st r st'"
  by (simp add: settled_def)

lemma settled_env: "settled again st r st' \<Longrightarrow> process_env st' ''NODE_ENV'' = process_env st ''NODE_ENV''"
  by (simp add: settled_def)

lemma settled_again:
  "settled again st r st' \<Longrightarrow> process_env s2 ''NODE_ENV'' = process_env st ''NODE_ENV'' \<Longrightarrow>
   again s2 = (Inr r, s2)"
  by (simp add: settled_def)

lemma settled_seq:
  assumes A: "settled f st r1 s1" and B: "settled g s1 r2 st'"
    and h: "\<And>s2. f s2 = (Inr r1, s2) \<Longrightarrow> g s2 = (Inr r2, s2) \<Longrightarrow> h s2 = (Inr r, s2)"
  shows "settled h st r st'"
proof (rule settledI)
  show "process_env st' ''NODE_ENV'' = process_env st ''NODE_ENV''"
    using settled_env [OF A] settled_env [OF B] by simp
next
  fix s2 :: process_state assume e: "process_env s2 ''NODE_ENV'' = process_env st ''NODE_ENV''"
  then have "f s2 = (Inr r1, s2)" by (rule settled_again [OF A])
  moreover have "g s2 = (Inr r2, s2)"
    using settled_again [OF B] settled_env [OF A] e by simp
  ultimately show "h s2 = (Inr r, s2)" by (rule h)
qed

lemma settled_map:
  assumes A: "settled f st r1 st'"
    and h: "\<And>s2. f s2 = (Inr r1, s2) \<Longrightarrow> h s2 = (Inr r, s2)"
  shows "settled h st r st'"
  using A h by (simp add: settled_def)

lemma traverse_settled:
  "traverse x c a n st = (Inr n', st') \<Longrightarrow> settled (traverse x c a n') st n' st'"
  and traverse_list_settled:
    "traverse_list x c a ns st = (Inr ns', st') \<Longrightarrow> settled (traverse_list x c a ns') st ns' st'"
  and traverse_opt_settled:
    "traverse_opt x c a no st = (Inr no', st') \<Longrightarrow> settled (traverse_opt x c a no') st no' st'"
proof (induction x c a n st and x c a ns st and x c a no st
       arbitrary: n' st' and ns' st' and no' st'
       rule: traverse_traverse_list_traverse_opt.induct)
  case (1 x c a s st)
  then show ?case by (auto intro: settledI)
next
  case (2 x c a s st)
  then show ?case by (auto intro: settledI)
next
  case (3 x c a b st)
  then show ?case by (auto intro: settledI)
next
  case (4 x c a obj pr computed st)
  show ?case
  proof (cases "visitMemberExpression x c obj (MemberExpression obj pr computed) a st")
    case (Pair r st1)
    show ?thesis
    proof (cases r)
      case (Inl e)
      with "4.prems" Pair show ?thesis by simp
    next
      case (Inr w)
      show ?thesis
      proof (cases w)
        case (Some literal)
        with Pair Inr have l: "isLiteral literal"
          and e: "process_env st1 ''NODE_ENV'' = process_env st ''NODE_ENV''"
          by (auto dest: visit_Some)
        from "4.prems" Pair Inr Some have "n' = literal" "st' = st1" by simp_all
        with l e show ?thesis by (auto intro!: settledI simp: traverse_literal)
      next
        case None
        with Pair Inr have v: "visitMemberExpression x c obj (MemberExpression obj pr computed) a st
            = (Inr None, st1)" by simp
        then have st1: "st1 = st"
          and nb: "isProcessEnv obj \<longrightarrow> \<not> takesBranch c (process_env st ''NODE_ENV'') pr a"
          by (auto dest: visit_None)
        from "4.prems" v obtain u s1 v where
          l: "traverse x c False obj st1 = (Inr u, s1)" and r: "traverse x c False pr s1 = (Inr v, st')"
          and n: "n' = MemberExpression u v computed"
          by (auto split: prod.splits sum.splits)
        note A = "4.IH"(1) [OF v [symmetric] refl refl l]
        note B = "4.IH"(2) [OF v [symmetric] refl refl l [symmetric] refl r]
        have same1: "isProcessEnv u = isProcessEnv obj"
          by (rule traverse_isProcessEnv [OF l])
        have same2: "takesBranch c ne v a = takesBranch c ne pr a" for ne
          by (rule takesBranch_cong) (rule traverse_isIdentifier [OF r])
        show ?thesis
        proof (rule settledI)
          show "process_env st' ''NODE_ENV'' = process_env st ''NODE_ENV''"
            using settled_env [OF A] settled_env [OF B] st1 by simp
        next
          fix s2 :: process_state assume e: "process_env s2 ''NODE_ENV'' = process_env st ''NODE_ENV''"
          have "visitMemberExpression x c u (MemberExpression u v computed) a s2 = (Inr None, s2)"
            using nb same1 same2 e by (intro visit_stable) simp
          moreover have "traverse x c False u s2 = (Inr u, s2)"
            using settled_again [OF A] e st1 by simp
          moreover have "traverse x c False v s2 = (Inr v, s2)"
            using settled_again [OF B] settled_env [OF A] e st1 by simp
          ultimately show "traverse x c a n' s2 = (Inr n', s2)" by (simp add: n)
        qed
      qed
    qed
  qed
next
  case (5 x c a operator left right st)
  from "5.prems" obtain u s1 v where
    l: "traverse x c True left st = (Inr u, s1)" and r: "traverse x c True right s1 = (Inr v, st')"
    and n: "n' = AssignmentExpression operator u v"
    by (auto split: prod.splits sum.splits)
  show ?case
    by (rule settled_seq [OF "5.IH"(1) [OF l] "5.IH"(2) [OF l [symmetric] refl r]])
       (simp add: n)
next
  case (6 x c a k w st)
  from "6.prems" obtain u s1 v where
    l: "traverse x c False k st = (Inr u, s1)" and r: "traverse x c False w s1 = (Inr v, st')"
    and n: "n' = ObjectProperty u v"
    by (auto split: prod.splits sum.splits)
  show ?case
    by (rule settled_seq [OF "6.IH"(1) [OF l] "6.IH"(2) [OF l [symmetric] refl r]])
       (simp add: n)
next
  case (7 x c a ps st)
  from "7.prems" obtain u where
    l: "traverse_list x c False ps st = (Inr u, st')" and n: "n' = ObjectExpression u"
    by (auto split: prod.splits sum.splits)
  show ?case
    by (rule settled_map [OF "7.IH" [OF l]]) (simp add: n)
next
  case (8 x c a i init st)
  from "8.prems" obtain u s1 v where
    l: "traverse x c False i st = (Inr u, s1)" and r: "traverse_opt x c False init s1 = (Inr v, st')"
    and n: "n' = VariableDeclarator u v"
    by (auto split: prod.splits sum.splits)
  show ?case
    by (rule settled_seq [OF "8.IH"(1) [OF l] "8.IH"(2) [OF l [symmetric] refl r]])
       (simp add: n)
next
  case (9 x c a kind ds st)
  from "9.prems" obtain u where
    l: "traverse_list x c False ds st = (Inr u, st')" and n: "n' = VariableDeclaration kind u"
    by (auto split: prod.splits sum.splits)
  show ?case
    by (rule settled_map [OF "9.IH" [OF l]]) (simp add: n)
next
  case (10 x c a lo ex st)
  from "10.prems" obtain u s1 v where
    l: "traverse x c False lo st = (Inr u, s1)" and r: "traverse x c False ex s1 = (Inr v, st')"
    and n: "n' = ExportSpecifier u v"
    by (auto split: prod.splits sum.splits)
  show ?case
    by (rule settled_seq [OF "10.IH"(1) [OF l] "10.IH"(2) [OF l [symmetric] refl r]])
       (simp add: n)
next
  case (11 x c a d specs st)
  from "11.prems" obtain u s1 v where
    l: "traverse_opt x c False d st = (Inr u, s1)" and r: "traverse_list x c False specs s1 = (Inr v, st')"
    and n: "n' = ExportNamedDeclaration u v"
    by (auto split: prod.splits sum.splits)
  show ?case
    by (rule settled_seq [OF "11.IH"(1) [OF l] "11.IH"(2) [OF l [symmetric] refl r]])
       (simp add: n)
next
  case (12 x c a d st)
  from "12.prems" obtain u where
    l: "traverse_opt x c False d st = (Inr u, st')" and n: "n' = ExportDefaultDeclaration u"
    by (auto split: prod.splits sum.splits)
  show ?case
    by (rule settled_map [OF "12.IH" [OF l]]) (simp add: n)
next
  case (13 x c a ty i ns st)
  from "13.prems" obtain u s1 v where
    l: "traverse_opt x c False i st = (Inr u, s1)" and r: "traverse_list x c False ns s1 = (Inr v, st')"
    and n: "n' = Declaration ty u v"
    by (auto split: prod.splits sum.splits)
  show ?case
    by (rule settled_seq [OF "13.IH"(1) [OF l] "13.IH"(2) [OF l [symmetric] refl r]])
       (simp add: n)
next
  case (14 x c a ty ns st)
  from "14.prems" obtain u where
    l: "traverse_list x c False ns st = (Inr u, st')" and n: "n' = Other ty u"
    by (auto split: prod.splits sum.splits)
  show ?case
    by (rule settled_map [OF "14.IH" [OF l]]) (simp add: n)
next
  case (15 x c a st)
  then show ?case by (auto intro: settledI)
next
  case (16 x c a n ns st)
  from "16.prems" obtain u s1 v where
    l: "traverse x c a n st = (Inr u, s1)" and r: "traverse_list x c a ns s1 = (Inr v, st')"
    and n: "ns' = u # v"
    by (auto split: prod.splits sum.splits)
  show ?case
    by (rule settled_seq [OF "16.IH"(1) [OF l] "16.IH"(2) [OF l [symmetric] refl r]])
       (simp add: n)
next
  case (17 x c a st)
  then show ?case by (auto intro: settledI)
next
  case (18 x c a n st)
  from "18.prems" obtain u where
    l: "traverse x c a n st = (Inr u, st')" and n: "no' = Some u"
    by (auto split: prod.splits sum.splits)
  show ?case
    by (rule settled_map [OF "18.IH" [OF l]]) (simp add: n)
qed

lemma appendE_Inr [simp]: "appendE (Inr xs) (Inr ys) = Inr (xs @ ys)"
  by (simp add: appendE_def)

lemma appendE_Nil [simp]: "appendE (Inr []) r = r"
  by (cases r) (simp_all add: appendE_def)

lemma appendE_assoc: "appendE (appendE r1 r2) r3 = appendE r1 (appendE r2 r3)"
  by (auto simp: appendE_def split: sum.splits)

lemma collectExports_list_append:
  "collectExports_list (xs @ ys) = appendE (collectExports_list xs) (collectExports_list ys)"
  by (induction xs) (simp_all add: appendE_assoc)

lemma stubId_clientReference:
  "clientReference key (Some name) = Inr stub \<Longrightarrow> stubId stub = Some (key @ ''#'' @ name)"
  by (auto simp: clientReference_def stubId_def stubDescriptor_def descriptor_def split: if_splits)

lemma mapE_clientReference:
  "\<exists>stubs. mapE (clientReference key) (map Some names) = Inr stubs \<and>
     map stubId stubs = map (\<lambda>name. Some (key @ ''#'' @ name)) names"
proof (induction names)
  case Nil
  show ?case by simp
next
  case (Cons name names)
  then obtain stubs where rest: "mapE (clientReference key) (map Some names) = Inr stubs"
    and ids: "map stubId stubs = map (\<lambda>name. Some (key @ ''#'' @ name)) names"
    by blast
  obtain stub where one: "clientReference key (Some name) = Inr stub"
    by (cases "name = ''default''") (simp_all add: clientReference_def)
  have "stubId stub = Some (key @ ''#'' @ name)"
    using one by (rule stubId_clientReference)
  with rest ids one show ?case by simp
qed

lemma traverse_envRead:
  "traverse x c a (envRead k1 k2 name) st =
     (case inlineValue x c (Identifier name) a st of
        (Inl e, st') \<Rightarrow> (Inl e, st')
      | (Inr (Some literal), st') \<Rightarrow> (Inr literal, st')
      | (Inr None, st') \<Rightarrow> (Inr (envRead k1 k2 name), st'))"
  by (simp add: envRead_def visitMemberExpression_def split: prod.splits sum.splits option.splits)

lemma traverse_envRead_inAssignment:
  "traverse x c True (envRead k1 k2 name) st = (Inr (envRead k1 k2 name), st)"
  by (simp add: traverse_envRead inlineValue_None takesBranch_def)

lemma importModeEnvVar_neq' [simp]:
  "''NODE_ENV'' \<noteq> importModeEnvVar p"
  "''EXPO_PROJECT_ROOT'' \<noteq> importModeEnvVar p"
  "''EXPO_PUBLIC_USE_STATIC'' \<noteq> importModeEnvVar p"
  "''EXPO_ROUTER_ABS_APP_ROOT'' \<noteq> importModeEnvVar p"
  "''EXPO_ROUTER_APP_ROOT'' \<noteq> importModeEnvVar p"
  by (simp_all add: importModeEnvVar_def)

section \<open>Evaluating the examples\<close>

lemmas example_defs =
  example_config_def example_externals_def example_state_def

lemmas mode_defs =
  getExpoRouterImportMode_def importModeEnvVar_def toUpperCase_def toUpperCase_char_def
  truthyEnv_def buildEnv_def getConfigMemo_def asyncRoutesSetting_def includesEnvOrTrue_def
  setEnv_def nullish_def getProp_def Let_def

lemmas root_defs =
  getExpoRouterAppRoot_def getExpoRouterAbsoluteAppRoot_def customSrc_def
  getRouterDirectory_def directoryExistsSync_def startsWithSlash_def projectRootOf_def

lemmas boundary_defs =
  expoRouterServerComponentClientReferencesPlugin_def outputKey_def namedExports_def
  defaultExports_def id_name_def exported_name_def appendE_def clientReference_def
  descriptor_def stubId_def stubDescriptor_def

lemmas pass_defs =
  expoRouterBabelPlugin_def envRead_def visitMemberExpression_def inlineValue_def

section \<open>ConfigResolver: one slot for the whole process\<close>

text \<open>
  Claim C10, as amended. \<open>getConfigMemo\<close> memoizes one project configuration for the
  process, not one per project root: the first call loads the configuration of the root
  it is given and stores it; while the test-mode flag \<^verbatim>\<open>_EXPO_INTERNAL_TESTING\<close> is not
  set, every later call returns the stored configuration and leaves the state as it is,
  whatever root it is given; when the flag is set, the configuration is loaded again on
  every call.
\<close>

theorem getConfigMemo_one_slot:
  "(config st = None \<longrightarrow>
      getConfigMemo x root st = (getConfig x root, st\<lparr>config := Some (getConfig x root)\<rparr>)) \<and>
   (config st = Some cfg \<and> truthyEnv st ''_EXPO_INTERNAL_TESTING'' = None \<longrightarrow>
      getConfigMemo x root st = (cfg, st)) \<and>
   (truthyEnv st ''_EXPO_INTERNAL_TESTING'' \<noteq> None \<longrightarrow>
      getConfigMemo x root st = (getConfig x root, st\<lparr>config := Some (getConfig x root)\<rparr>))"
  by (auto simp: getConfigMemo_def split: option.splits)

theorem getConfigMemo_one_slot_witness:
  "config (example_state []) = None \<and>
   getConfigMemo (example_externals example_root_config) ''/a'' (example_state [])
     = (example_root_config ''/a'',
        (example_state [])\<lparr>config := Some (example_root_config ''/a'')\<rparr>) \<and>
   getConfigMemo (example_externals example_root_config) ''/a''
       ((example_state [])\<lparr>config := Some (example_root_config ''/a'')\<rparr>)
     = (example_root_config ''/a'',
        (example_state [])\<lparr>config := Some (example_root_config ''/a'')\<rparr>) \<and>
   getConfigMemo (example_externals example_root_config) ''/b''
       ((example_state [(''_EXPO_INTERNAL_TESTING'', ''1'')])
          \<lparr>config := Some (example_root_config ''/a'')\<rparr>)
     = (example_root_config ''/b'',
        (example_state [(''_EXPO_INTERNAL_TESTING'', ''1'')])
          \<lparr>config := Some (example_root_config ''/b'')\<rparr>)"
  using
    getConfigMemo_one_slot [where st = "example_state []"
      and x = "example_externals example_root_config" and root = "''/a''"]
    getConfigMemo_one_slot [where
      st = "(example_state [])\<lparr>config := Some (example_root_config ''/a'')\<rparr>"
      and cfg = "example_root_config ''/a''"
      and x = "example_externals example_root_config" and root = "''/a''"]
    getConfigMemo_one_slot [where
      st = "(example_state [(''_EXPO_INTERNAL_TESTING'', ''1'')])
         \<lparr>config := Some (example_root_config ''/a'')\<rparr>"
      and cfg = "example_root_config ''/a''"
      and x = "example_externals example_root_config" and root = "''/b''"]
  by (simp add: example_defs example_root_config_def truthyEnv_def)

text \<open>
  The claim as it was stated fails: after a call for the root \<^verbatim>\<open>/a\<close>, the first call for
  the root \<^verbatim>\<open>/b\<close> does not load the configuration of \<^verbatim>\<open>/b\<close>; it returns that of
  \<^verbatim>\<open>/a\<close>.
\<close>

theorem getConfigMemo_per_root_counterexample:
  "fst (getConfigMemo (example_externals example_root_config) ''/b''
         (snd (getConfigMemo (example_externals example_root_config) ''/a''
                (example_state []))))
     = example_root_config ''/a'' \<and>
   getConfig (example_externals example_root_config) ''/b''
     = example_root_config ''/b'' \<and>
   example_root_config ''/a'' \<noteq> example_root_config ''/b''"
  by (simp add: getConfigMemo_def example_defs example_root_config_def truthyEnv_def)

section \<open>RouterModeResolver\<close>

text \<open>
  Claim C2, as amended. A per-platform override that is already cached in the
  environment is returned as it is, in every build environment. When none is cached and
  the build environment is production, \<open>getExpoRouterImportMode\<close> never returns
  \<^verbatim>\<open>lazy\<close>: it throws when the setting selects lazy loading and returns \<^verbatim>\<open>sync\<close>
  otherwise.
\<close>

theorem importMode_production:
  "(truthyEnv st (importModeEnvVar plat) = Some v \<longrightarrow>
      getExpoRouterImportMode x root plat st = (Inr v, st)) \<and>
   (buildEnv st = Some ''production'' \<and> truthyEnv st (importModeEnvVar plat) = None \<longrightarrow>
      fst (getExpoRouterImportMode x root plat st) \<noteq> Inr ''lazy'' \<and>
      fst (getExpoRouterImportMode x root plat st) =
        (if includesEnvOrTrue (Some ''production'')
              (asyncRoutesSetting (exp (fst (getConfigMemo x root st))) plat)
         then Inl AsyncRoutesNotSupported else Inr ''sync''))"
  by (auto simp: getExpoRouterImportMode_def Let_def split: prod.splits option.splits)

theorem importMode_production_witness:
  "getExpoRouterImportMode (example_externals (\<lambda>r. example_config (JBool False) None)) ''/p''
       ''ios'' (example_state [(''NODE_ENV'', ''production''), (''EXPO_ROUTER_IMPORT_MODE_IOS'', ''sync'')])
     = (Inr ''sync'',
        example_state [(''NODE_ENV'', ''production''), (''EXPO_ROUTER_IMPORT_MODE_IOS'', ''sync'')]) \<and>
   buildEnv (example_state [(''NODE_ENV'', ''production'')]) = Some ''production'' \<and>
   truthyEnv (example_state [(''NODE_ENV'', ''production'')]) (importModeEnvVar ''ios'') = None \<and>
   fst (getExpoRouterImportMode (example_externals (\<lambda>r. example_config (JStr ''development'') None))
         ''/p'' ''ios'' (example_state [(''NODE_ENV'', ''production'')]))
     = Inr ''sync''"
  using
    importMode_production [where
      st = "example_state [(''NODE_ENV'', ''production''), (''EXPO_ROUTER_IMPORT_MODE_IOS'', ''sync'')]"
      and plat = "''ios''" and v = "''sync''"
      and x = "example_externals (\<lambda>r. example_config (JBool False) None)" and root = "''/p''"]
    importMode_production [where st = "example_state [(''NODE_ENV'', ''production'')]"
      and plat = "''ios''"
      and x = "example_externals (\<lambda>r. example_config (JStr ''development'') None)"
      and root = "''/p''"]
  by (simp add: mode_defs example_defs)

text \<open>
  The claim as it was stated fails twice: in production, with the setting
  \<^verbatim>\<open>"production"\<close>, the call throws and does not return \<^verbatim>\<open>sync\<close>; and in production,
  with the override \<^verbatim>\<open>lazy\<close> cached, the call returns \<^verbatim>\<open>lazy\<close>.
\<close>

theorem importMode_production_counterexample:
  "fst (getExpoRouterImportMode (example_externals (\<lambda>r. example_config (JStr ''production'') None))
         ''/p'' ''ios'' (example_state [(''NODE_ENV'', ''production'')]))
     = Inl AsyncRoutesNotSupported \<and>
   fst (getExpoRouterImportMode (example_externals (\<lambda>r. example_config (JBool False) None))
         ''/p'' ''ios''
         (example_state [(''NODE_ENV'', ''production''), (''EXPO_ROUTER_IMPORT_MODE_IOS'', ''lazy'')]))
     = Inr ''lazy''"
  by (simp add: mode_defs example_defs)

text \<open>
  Claim C3, as amended. When the build environment is production, no override is
  cached for the platform and the candidate mode is lazy (the setting read from the
  configuration is the string \<^verbatim>\<open>"production"\<close> or the value \<^verbatim>\<open>true\<close>),
  \<open>getExpoRouterImportMode\<close> throws and leaves the environment without a cached mode.
  For the project root \<^verbatim>\<open>/p\<close>, the platform web, the setting \<^verbatim>\<open>"development"\<close> and the
  environment production, the candidate is sync and the call returns \<^verbatim>\<open>sync\<close>.
\<close>

theorem importMode_production_throws:
  "(buildEnv st = Some ''production'' \<and> truthyEnv st (importModeEnvVar plat) = None \<and>
    includesEnvOrTrue (Some ''production'')
      (asyncRoutesSetting (exp (fst (getConfigMemo x root st))) plat) \<longrightarrow>
      fst (getExpoRouterImportMode x root plat st) = Inl AsyncRoutesNotSupported \<and>
      process_env (snd (getExpoRouterImportMode x root plat st)) = process_env st) \<and>
   (buildEnv st = Some ''production'' \<and> truthyEnv st (importModeEnvVar ''web'') = None \<and>
    asyncRoutesSetting (exp (fst (getConfigMemo x ''/p'' st))) ''web'' = JStr ''development'' \<longrightarrow>
      fst (getExpoRouterImportMode x ''/p'' ''web'' st) = Inr ''sync'')"
  by (auto simp: getExpoRouterImportMode_def Let_def getConfigMemo_def includesEnvOrTrue_def
           split: prod.splits option.splits)

theorem importMode_production_throws_witness:
  "buildEnv (example_state [(''NODE_ENV'', ''production'')]) = Some ''production'' \<and>
   truthyEnv (example_state [(''NODE_ENV'', ''production'')]) (importModeEnvVar ''web'') = None \<and>
   includesEnvOrTrue (Some ''production'')
     (asyncRoutesSetting
        (exp (fst (getConfigMemo
                     (example_externals (\<lambda>r. example_config (JObj [(''default'', JBool True)]) None))
                     ''/p'' (example_state [(''NODE_ENV'', ''production'')]))))
        ''web'') \<and>
   fst (getExpoRouterImportMode
          (example_externals (\<lambda>r. example_config (JObj [(''default'', JBool True)]) None))
          ''/p'' ''web'' (example_state [(''NODE_ENV'', ''production'')]))
     = Inl AsyncRoutesNotSupported \<and>
   process_env (snd (getExpoRouterImportMode
          (example_externals (\<lambda>r. example_config (JObj [(''default'', JBool True)]) None))
          ''/p'' ''web'' (example_state [(''NODE_ENV'', ''production'')])))
     = process_env (example_state [(''NODE_ENV'', ''production'')])"
  using importMode_production_throws [where st = "example_state [(''NODE_ENV'', ''production'')]"
      and plat = "''web''"
      and x = "example_externals (\<lambda>r. example_config (JObj [(''default'', JBool True)]) None)"
      and root = "''/p''"]
  by (simp add: mode_defs example_defs)

text \<open>
  The claim as it was stated fails at its own scenario: for \<^verbatim>\<open>/p\<close>, web, the setting
  \<^verbatim>\<open>"development"\<close> and the environment production, the call does not throw.
\<close>

theorem importMode_scenario_counterexample:
  "fst (getExpoRouterImportMode
          (example_externals (\<lambda>r. example_config (JStr ''development'') None))
          ''/p'' ''web'' (example_state [(''NODE_ENV'', ''production'')]))
     = Inr ''sync''"
  by (simp add: mode_defs example_defs)

text \<open>
  Claim C4, as amended. For the web platform with the web output mode \<^verbatim>\<open>static\<close> and
  no override cached, \<open>getExpoRouterImportMode\<close> yields \<^verbatim>\<open>sync\<close> for every setting
  unless the production check fires first: when the environment is production and the
  candidate is lazy, the call throws.
\<close>

theorem importMode_web_static:
  "truthyEnv st (importModeEnvVar ''web'') = None \<Longrightarrow>
   web_output (exp (fst (getConfigMemo x root st))) = Some ''static'' \<Longrightarrow>
   fst (getExpoRouterImportMode x root ''web'' st) =
     (if buildEnv st = Some ''production'' \<and>
         includesEnvOrTrue (buildEnv st)
           (asyncRoutesSetting (exp (fst (getConfigMemo x root st))) ''web'')
      then Inl AsyncRoutesNotSupported else Inr ''sync'')"
  by (auto simp: getExpoRouterImportMode_def Let_def split: prod.splits option.splits)

theorem importMode_web_static_witness:
  "truthyEnv (example_state [(''NODE_ENV'', ''development'')]) (importModeEnvVar ''web'') = None \<and>
   web_output (exp (fst (getConfigMemo
       (example_externals (\<lambda>r. example_config (JStr ''development'') (Some ''static'')))
       ''/p'' (example_state [(''NODE_ENV'', ''development'')])))) = Some ''static'' \<and>
   fst (getExpoRouterImportMode
          (example_externals (\<lambda>r. example_config (JStr ''development'') (Some ''static'')))
          ''/p'' ''web'' (example_state [(''NODE_ENV'', ''development'')]))
     = Inr ''sync''"
  using importMode_web_static [where st = "example_state [(''NODE_ENV'', ''development'')]"
      and x = "example_externals (\<lambda>r. example_config (JStr ''development'') (Some ''static''))"
      and root = "''/p''"]
  by (simp add: mode_defs example_defs)

text \<open>
  The claim as it was stated fails: for the web platform with static output, the
  setting \<^verbatim>\<open>"production"\<close> and the environment production, the call throws.
\<close>

theorem importMode_web_static_counterexample:
  "fst (getExpoRouterImportMode
          (example_externals (\<lambda>r. example_config (JStr ''production'') (Some ''static'')))
          ''/p'' ''web'' (example_state [(''NODE_ENV'', ''production'')]))
     = Inl AsyncRoutesNotSupported"
  by (simp add: mode_defs example_defs)

section \<open>ClientBoundaryPass\<close>

text \<open>
  Claim C7. For a file whose directives do not include \<^verbatim>\<open>use client\<close>, the visitor
  returns the file as it was and leaves the metadata entry as it was, for the server
  target and for the client target (\<open>c\<close> is any caller).
\<close>

theorem no_directive_unchanged:
  "''use client'' \<notin> set (directives p) \<Longrightarrow>
   expoRouterServerComponentClientReferencesPlugin x c filename p metadata = Inr (p, metadata)"
  by (simp add: expoRouterServerComponentClientReferencesPlugin_def list_ex_iff)

theorem no_directive_unchanged_witness:
  "''use client'' \<notin> set (directives (example_client_file\<lparr>directives := [''use strict'']\<rparr>)) \<and>
   expoRouterServerComponentClientReferencesPlugin (example_externals (\<lambda>r. example_config JNull None))
       \<lparr>isServer = True, serverRoot = ''/p''\<rparr> ''/p/components/Foo.js''
       (example_client_file\<lparr>directives := [''use strict'']\<rparr>) None
     = Inr (example_client_file\<lparr>directives := [''use strict'']\<rparr>, None) \<and>
   expoRouterServerComponentClientReferencesPlugin (example_externals (\<lambda>r. example_config JNull None))
       \<lparr>isServer = False, serverRoot = ''/p''\<rparr> ''/p/components/Foo.js''
       (example_client_file\<lparr>directives := [''use strict'']\<rparr>) None
     = Inr (example_client_file\<lparr>directives := [''use strict'']\<rparr>, None)"
  using
    no_directive_unchanged [where p = "example_client_file\<lparr>directives := [''use strict'']\<rparr>"
      and x = "example_externals (\<lambda>r. example_config JNull None)"
      and c = "\<lparr>isServer = True, serverRoot = ''/p''\<rparr>" and filename = "''/p/components/Foo.js''"
      and metadata = None]
    no_directive_unchanged [where p = "example_client_file\<lparr>directives := [''use strict'']\<rparr>"
      and x = "example_externals (\<lambda>r. example_config JNull None)"
      and c = "\<lparr>isServer = False, serverRoot = ''/p''\<rparr>" and filename = "''/p/components/Foo.js''"
      and metadata = None]
  by (simp add: example_client_file_def)

text \<open>
  For a file with the directive whose manifest entry, recorded for the client target,
  holds only names of identifiers, the two targets agree: the server target succeeds on
  the same file, replaces its body by one stub per manifest name and clears its
  directives, and the \<^verbatim>\<open>$$id\<close> values of the stubs are \<^verbatim>\<open>entryPoint + "#" + name\<close> for
  the names of the manifest, in the same order.
\<close>

lemma manifest_and_stubs_agree:
  assumes "''use client'' \<in> set (directives p)"
    and "expoRouterServerComponentClientReferencesPlugin x \<lparr>isServer = False, serverRoot = root\<rparr>
           filename p metadata = Inr (p', Some m)"
    and "exports m = map Some names"
  shows "\<exists>stubs.
           expoRouterServerComponentClientReferencesPlugin x \<lparr>isServer = True, serverRoot = root\<rparr>
             filename p metadata' = Inr (p\<lparr>body := stubs, directives := []\<rparr>, metadata') \<and>
           map stubId stubs = map (\<lambda>name. Some (entryPoint m @ ''#'' @ name)) names"
proof -
  have d: "list_ex (\<lambda>d. d = ''use client'') (directives p)"
    using assms(1) by (simp add: list_ex_iff)
  from assms(2) d have c: "collectExports_list (body p) = Inr (exports m)"
    and k: "entryPoint m = outputKey x root filename"
    by (auto simp: expoRouterServerComponentClientReferencesPlugin_def Let_def split: sum.splits)
  obtain stubs where "mapE (clientReference (entryPoint m)) (map Some names) = Inr stubs"
    and "map stubId stubs = map (\<lambda>name. Some (entryPoint m @ ''#'' @ name)) names"
    using mapE_clientReference by blast
  then show ?thesis
    using d c k assms(3)
    by (auto simp: expoRouterServerComponentClientReferencesPlugin_def Let_def)
qed

lemma manifest_and_stubs_agree_example:
  "''use client'' \<in> set (directives example_client_file) \<and>
   expoRouterServerComponentClientReferencesPlugin (example_externals (\<lambda>r. example_config JNull None))
       \<lparr>isServer = False, serverRoot = ''/p''\<rparr> ''/p/components/Foo.js'' example_client_file None
     = Inr (example_client_file,
            Some \<lparr>entryPoint = ''/components/Foo.js'',
                  exports = [Some ''a'', Some ''b'', Some ''default'']\<rparr>) \<and>
   (\<exists>stubs.
      expoRouterServerComponentClientReferencesPlugin (example_externals (\<lambda>r. example_config JNull None))
          \<lparr>isServer = True, serverRoot = ''/p''\<rparr> ''/p/components/Foo.js'' example_client_file None
        = Inr (example_client_file\<lparr>body := stubs, directives := []\<rparr>, None) \<and>
      map stubId stubs =
        [Some ''/components/Foo.js#a'', Some ''/components/Foo.js#b'',
         Some ''/components/Foo.js#default''])"
proof -
  have d: "''use client'' \<in> set (directives example_client_file)"
    by (simp add: example_client_file_def)
  have c: "expoRouterServerComponentClientReferencesPlugin
        (example_externals (\<lambda>r. example_config JNull None))
        \<lparr>isServer = False, serverRoot = ''/p''\<rparr> ''/p/components/Foo.js'' example_client_file None
     = Inr (example_client_file,
            Some \<lparr>entryPoint = ''/components/Foo.js'',
                  exports = [Some ''a'', Some ''b'', Some ''default'']\<rparr>)"
    by (simp add: boundary_defs example_client_file_def example_defs)
  show ?thesis
    using d c manifest_and_stubs_agree [OF d c, where names = "[''a'', ''b'', ''default'']"
        and metadata' = None]
    by simp
qed

text \<open>
  Claim C1. The manifest entry of the client target and the stubs of the server target
  are to hold the same export names, in the same order, for every file with the
  directive. The code breaks this for a file that exports a destructuring pattern,
  \<^verbatim>\<open>"use client"; export const { a } = obj;\<close>: line 237 reads \<^verbatim>\<open>decl.id.name\<close> of the
  pattern, which is \<^verbatim>\<open>undefined\<close>; the client target records a manifest entry whose one
  export is \<^verbatim>\<open>undefined\<close>, not \<^verbatim>\<open>a\<close>, and the server target throws at line 286 and
  generates no stub.
\<close>

theorem pattern_export_diverges:
  "expoRouterServerComponentClientReferencesPlugin (example_externals (\<lambda>r. example_config JNull None))
       \<lparr>isServer = False, serverRoot = ''/p''\<rparr> ''/p/components/Foo.js'' example_pattern_file None
     = Inr (example_pattern_file, Some \<lparr>entryPoint = ''/components/Foo.js'', exports = [None]\<rparr>) \<and>
   expoRouterServerComponentClientReferencesPlugin (example_externals (\<lambda>r. example_config JNull None))
       \<lparr>isServer = True, serverRoot = ''/p''\<rparr> ''/p/components/Foo.js'' example_pattern_file None
     = Inl TypeError"
  by (simp add: boundary_defs example_pattern_file_def example_defs)

text \<open>
  Claim C9, as amended. In the export enumeration of a file with the directive, a
  default export always contributes the name \<^verbatim>\<open>default\<close>, also when it exports a bare
  identifier (then \<open>d\<close> is an identifier and \<open>nd\<close> is empty). The statements that
  contribute no name, without failing the file, are a default export node without a
  declaration, a named export with neither a declaration nor a specifier, and a
  statement the enumerator has no visitor for, such as \<^verbatim>\<open>export * from "m"\<close>. Here the
  statement stands between the statements \<open>before\<close> and \<open>after\<close>, which contribute the
  names \<open>ns1\<close> and \<open>ns2\<close>, and \<open>nd\<close> are the names of the exports nested in \<open>d\<close>.
\<close>

theorem export_shapes:
  assumes "''use client'' \<in> set (directives p)"
    and "collectExports_list before = Inr ns1"
    and "collectExports_list after = Inr ns2"
    and "collectExports d = Inr nd"
  shows
    "expoRouterServerComponentClientReferencesPlugin x \<lparr>isServer = False, serverRoot = root\<rparr> filename
        (p\<lparr>body := before @ [ExportDefaultDeclaration (Some d)] @ after\<rparr>) metadata
       = Inr (p\<lparr>body := before @ [ExportDefaultDeclaration (Some d)] @ after\<rparr>,
              Some \<lparr>entryPoint = outputKey x root filename,
                    exports = ns1 @ [Some ''default''] @ nd @ ns2\<rparr>) \<and>
     expoRouterServerComponentClientReferencesPlugin x \<lparr>isServer = False, serverRoot = root\<rparr> filename
        (p\<lparr>body := before @ [ExportDefaultDeclaration None] @ after\<rparr>) metadata
       = Inr (p\<lparr>body := before @ [ExportDefaultDeclaration None] @ after\<rparr>,
              Some \<lparr>entryPoint = outputKey x root filename, exports = ns1 @ ns2\<rparr>) \<and>
     expoRouterServerComponentClientReferencesPlugin x \<lparr>isServer = False, serverRoot = root\<rparr> filename
        (p\<lparr>body := before @ [ExportNamedDeclaration None []] @ after\<rparr>) metadata
       = Inr (p\<lparr>body := before @ [ExportNamedDeclaration None []] @ after\<rparr>,
              Some \<lparr>entryPoint = outputKey x root filename, exports = ns1 @ ns2\<rparr>) \<and>
     expoRouterServerComponentClientReferencesPlugin x \<lparr>isServer = False, serverRoot = root\<rparr> filename
        (p\<lparr>body := before @ [Other ''ExportAllDeclaration'' [StringLiteral source]] @ after\<rparr>) metadata
       = Inr (p\<lparr>body := before @ [Other ''ExportAllDeclaration'' [StringLiteral source]] @ after\<rparr>,
              Some \<lparr>entryPoint = outputKey x root filename, exports = ns1 @ ns2\<rparr>)"
proof -
  have d: "list_ex (\<lambda>d. d = ''use client'') (directives p)"
    using assms(1) by (simp add: list_ex_iff)
  have c: "collectExports_list (before @ s # after) =
      appendE (Inr ns1) (appendE (collectExports s) (Inr ns2))" for s
    using assms(2,3) by (simp add: collectExports_list_append)
  show ?thesis
    using d assms(4)
    by (simp add: expoRouterServerComponentClientReferencesPlugin_def Let_def c defaultExports_def
          namedExports_def)
qed

theorem export_shapes_witness:
  "''use client'' \<in> set (directives example_client_file) \<and>
   collectExports_list (body example_client_file) = Inr [Some ''a'', Some ''b'', Some ''default''] \<and>
   collectExports_list [] = Inr [] \<and>
   collectExports (Identifier ''foo'') = Inr [] \<and>
   expoRouterServerComponentClientReferencesPlugin (example_externals (\<lambda>r. example_config JNull None))
       \<lparr>isServer = False, serverRoot = ''/p''\<rparr> ''/p/components/Foo.js''
       (example_client_file
          \<lparr>body := [] @ [ExportDefaultDeclaration (Some (Identifier ''foo''))] @
                    body example_client_file\<rparr>) None
     = Inr (example_client_file
              \<lparr>body := [] @ [ExportDefaultDeclaration (Some (Identifier ''foo''))] @
                        body example_client_file\<rparr>,
            Some \<lparr>entryPoint = ''/components/Foo.js'',
                  exports = [Some ''default'', Some ''a'', Some ''b'', Some ''default'']\<rparr>) \<and>
   expoRouterServerComponentClientReferencesPlugin (example_externals (\<lambda>r. example_config JNull None))
       \<lparr>isServer = False, serverRoot = ''/p''\<rparr> ''/p/components/Foo.js''
       (example_client_file
          \<lparr>body := [] @ [Other ''ExportAllDeclaration'' [StringLiteral ''./m'']] @
                    body example_client_file\<rparr>) None
     = Inr (example_client_file
              \<lparr>body := [] @ [Other ''ExportAllDeclaration'' [StringLiteral ''./m'']] @
                        body example_client_file\<rparr>,
            Some \<lparr>entryPoint = ''/components/Foo.js'',
                  exports = [Some ''a'', Some ''b'', Some ''default'']\<rparr>)"
proof -
  have d: "''use client'' \<in> set (directives example_client_file)"
    by (simp add: example_client_file_def)
  have b: "collectExports_list (body example_client_file) = Inr [Some ''a'', Some ''b'', Some ''default'']"
    by (simp add: boundary_defs example_client_file_def)
  have a: "collectExports_list [] = Inr []"
    by simp
  have i: "collectExports (Identifier ''foo'') = Inr []"
    by simp
  show ?thesis
    using d b a i
      export_shapes [OF d a b i, where x = "example_externals (\<lambda>r. example_config JNull None)"
        and root = "''/p''" and filename = "''/p/components/Foo.js''" and metadata = None
        and source = "''./m''"]
    by (simp add: outputKey_def example_defs)
qed

text \<open>
  The claim as it was stated fails at its own example: the file
  \<^verbatim>\<open>"use client"; export default foo;\<close>, a default export of a bare identifier, is not
  skipped: its manifest entry holds the name \<^verbatim>\<open>default\<close>.
\<close>

theorem bare_default_export_counterexample:
  "expoRouterServerComponentClientReferencesPlugin (example_externals (\<lambda>r. example_config JNull None))
       \<lparr>isServer = False, serverRoot = ''/p''\<rparr> ''/p/components/Foo.js''
       \<lparr>directives = [''use client''], body = [ExportDefaultDeclaration (Some (Identifier ''foo''))]\<rparr>
       None
     = Inr (\<lparr>directives = [''use client''],
              body = [ExportDefaultDeclaration (Some (Identifier ''foo''))]\<rparr>,
            Some \<lparr>entryPoint = ''/components/Foo.js'', exports = [Some ''default'']\<rparr>)"
  by (simp add: boundary_defs example_defs)

section \<open>EnvInliningPass\<close>

text \<open>
  Claim C5, as amended. A read \<^verbatim>\<open>process.env.NAME\<close> that is the left-hand side of an
  assignment is never rewritten, whatever the name. A read whose parent is not an
  assignment expression (\<open>traverse x c False\<close>) is replaced as a whole by a literal:
  the project root for \<^verbatim>\<open>EXPO_PROJECT_ROOT\<close>; a boolean for
  \<^verbatim>\<open>EXPO_PUBLIC_USE_STATIC\<close>; outside the test environment the string of
  \<open>getExpoRouterAbsoluteAppRoot\<close> for \<^verbatim>\<open>EXPO_ROUTER_ABS_APP_ROOT\<close> and, when
  \<open>getExpoRouterAppRoot\<close> returns one, its string for \<^verbatim>\<open>EXPO_ROUTER_APP_ROOT\<close>; and, when
  \<open>getExpoRouterImportMode\<close> returns one, the mode for the import-mode variable of the
  caller's platform.
\<close>

theorem assignment_target_kept:
  "traverse x c a (AssignmentExpression operator (envRead k1 k2 name) right) st =
     (case traverse x c True right st of
        (Inl e, s) \<Rightarrow> (Inl e, s)
      | (Inr right', s) \<Rightarrow>
          (Inr (AssignmentExpression operator (envRead k1 k2 name) right'), s)) \<and>
   traverse x c False (envRead k1 k2 ''EXPO_PROJECT_ROOT'') st
     = (Inr (StringLiteral (projectRootOf c)), st) \<and>
   traverse x c False (envRead k1 k2 ''EXPO_PUBLIC_USE_STATIC'') st
     = (Inr (BooleanLiteral
          (platform c = Some ''web'' \<and>
           (process_env st ''EXPO_PUBLIC_USE_STATIC'' = Some ''true'' \<or>
            process_env st ''EXPO_PUBLIC_USE_STATIC'' = Some ''1''))), st) \<and>
   (process_env st ''NODE_ENV'' \<noteq> Some ''test'' \<longrightarrow>
      traverse x c False (envRead k1 k2 ''EXPO_ROUTER_ABS_APP_ROOT'') st
        = (Inr (StringLiteral (fst (getExpoRouterAbsoluteAppRoot x (projectRootOf c) st))),
           snd (getExpoRouterAbsoluteAppRoot x (projectRootOf c) st))) \<and>
   (process_env st ''NODE_ENV'' \<noteq> Some ''test'' \<and>
    getExpoRouterAppRoot x (projectRootOf c) st = (Inr v, st') \<longrightarrow>
      traverse x c False (envRead k1 k2 ''EXPO_ROUTER_APP_ROOT'') st
        = (Inr (StringLiteral v), st')) \<and>
   (platform c = Some plat \<and> plat \<noteq> [] \<and>
    getExpoRouterImportMode x (projectRootOf c) plat st = (Inr w, st'') \<longrightarrow>
      traverse x c False (envRead k1 k2 (importModeEnvVar plat)) st
        = (Inr (StringLiteral w), st''))"
proof -
  have "traverse x c False (envRead k1 k2 ''EXPO_PUBLIC_USE_STATIC'') st
     = (Inr (BooleanLiteral
          (platform c = Some ''web'' \<and>
           (process_env st ''EXPO_PUBLIC_USE_STATIC'' = Some ''true'' \<or>
            process_env st ''EXPO_PUBLIC_USE_STATIC'' = Some ''1''))), st)"
    by (simp add: traverse_envRead inlineValue_def)
  moreover have "traverse x c False (envRead k1 k2 ''EXPO_PROJECT_ROOT'') st
     = (Inr (StringLiteral (projectRootOf c)), st)"
    by (simp add: traverse_envRead inlineValue_def)
  moreover have "process_env st ''NODE_ENV'' \<noteq> Some ''test'' \<Longrightarrow>
      traverse x c False (envRead k1 k2 ''EXPO_ROUTER_ABS_APP_ROOT'') st
        = (Inr (StringLiteral (fst (getExpoRouterAbsoluteAppRoot x (projectRootOf c) st))),
           snd (getExpoRouterAbsoluteAppRoot x (projectRootOf c) st))"
    by (simp add: traverse_envRead inlineValue_def Let_def split_beta)
  moreover have "process_env st ''NODE_ENV'' \<noteq> Some ''test'' \<Longrightarrow>
    getExpoRouterAppRoot x (projectRootOf c) st = (Inr v, st') \<Longrightarrow>
      traverse x c False (envRead k1 k2 ''EXPO_ROUTER_APP_ROOT'') st
        = (Inr (StringLiteral v), st')"
    by (simp add: traverse_envRead inlineValue_def)
  moreover have "platform c = Some plat \<Longrightarrow> plat \<noteq> [] \<Longrightarrow>
    getExpoRouterImportMode x (projectRootOf c) plat st = (Inr w, st'') \<Longrightarrow>
      traverse x c False (envRead k1 k2 (importModeEnvVar plat)) st
        = (Inr (StringLiteral w), st'')"
    by (simp add: traverse_envRead inlineValue_def)
  ultimately show ?thesis
    by (simp add: traverse_envRead_inAssignment)
qed

theorem assignment_target_kept_witness:
  "traverse (example_externals (\<lambda>r. example_config (JStr ''development'') None)) example_caller False
       (AssignmentExpression ''='' (envRead False False ''EXPO_PUBLIC_USE_STATIC'') (Identifier ''x''))
       (example_state [(''NODE_ENV'', ''development'')])
     = (Inr (AssignmentExpression ''='' (envRead False False ''EXPO_PUBLIC_USE_STATIC'')
               (Identifier ''x'')), (example_state [(''NODE_ENV'', ''development'')])) \<and>
   traverse (example_externals (\<lambda>r. example_config (JStr ''development'') None)) example_caller False (envRead False False ''EXPO_PROJECT_ROOT'') (example_state [(''NODE_ENV'', ''development'')])
     = (Inr (StringLiteral ''/p''), (example_state [(''NODE_ENV'', ''development'')])) \<and>
   traverse (example_externals (\<lambda>r. example_config (JStr ''development'') None)) example_caller False (envRead False False ''EXPO_PUBLIC_USE_STATIC'') (example_state [(''NODE_ENV'', ''development'')])
     = (Inr (BooleanLiteral False), (example_state [(''NODE_ENV'', ''development'')])) \<and>
   process_env (example_state [(''NODE_ENV'', ''development'')]) ''NODE_ENV'' \<noteq> Some ''test'' \<and>
   fst (traverse (example_externals (\<lambda>r. example_config (JStr ''development'') None)) example_caller False (envRead False False ''EXPO_ROUTER_ABS_APP_ROOT'') (example_state [(''NODE_ENV'', ''development'')]))
     = Inr (StringLiteral ''/p/src/app'') \<and>
   fst (getExpoRouterAppRoot (example_externals (\<lambda>r. example_config (JStr ''development'') None)) ''/p'' (example_state [(''NODE_ENV'', ''development'')])) = Inr ''../../src/app'' \<and>
   fst (traverse (example_externals (\<lambda>r. example_config (JStr ''development'') None)) example_caller False (envRead False False ''EXPO_ROUTER_APP_ROOT'') (example_state [(''NODE_ENV'', ''development'')]))
     = Inr (StringLiteral ''../../src/app'') \<and>
   fst (getExpoRouterImportMode (example_externals (\<lambda>r. example_config (JStr ''development'') None)) ''/p'' ''web'' (example_state [(''NODE_ENV'', ''development'')])) = Inr ''lazy'' \<and>
   fst (traverse (example_externals (\<lambda>r. example_config (JStr ''development'') None)) example_caller False (envRead False False ''EXPO_ROUTER_IMPORT_MODE_WEB'') (example_state [(''NODE_ENV'', ''development'')]))
     = Inr (StringLiteral ''lazy'')"
proof -
  have "fst (getExpoRouterAppRoot (example_externals (\<lambda>r. example_config (JStr ''development'') None)) (projectRootOf example_caller) (example_state [(''NODE_ENV'', ''development'')])) = Inr ''../../src/app''"
    by (simp add: root_defs mode_defs example_defs example_caller_def)
  then obtain s1 where r: "getExpoRouterAppRoot (example_externals (\<lambda>r. example_config (JStr ''development'') None)) (projectRootOf example_caller) (example_state [(''NODE_ENV'', ''development'')])
      = (Inr ''../../src/app'', s1)"
    by (cases "getExpoRouterAppRoot (example_externals (\<lambda>r. example_config (JStr ''development'') None)) (projectRootOf example_caller) (example_state [(''NODE_ENV'', ''development'')])") simp
  have "fst (getExpoRouterImportMode (example_externals (\<lambda>r. example_config (JStr ''development'') None)) (projectRootOf example_caller) ''web'' (example_state [(''NODE_ENV'', ''development'')])) = Inr ''lazy''"
    by (simp add: root_defs mode_defs example_defs example_caller_def)
  then obtain s2 where m: "getExpoRouterImportMode (example_externals (\<lambda>r. example_config (JStr ''development'') None)) (projectRootOf example_caller) ''web'' (example_state [(''NODE_ENV'', ''development'')])
      = (Inr ''lazy'', s2)"
    by (cases "getExpoRouterImportMode (example_externals (\<lambda>r. example_config (JStr ''development'') None)) (projectRootOf example_caller) ''web'' (example_state [(''NODE_ENV'', ''development'')])") simp
  have n: "process_env (example_state [(''NODE_ENV'', ''development'')]) ''NODE_ENV'' \<noteq> Some ''test''"
    by (simp add: example_defs example_caller_def)
  have p: "platform example_caller = Some ''web''" "projectRootOf example_caller = ''/p''"
    "importModeEnvVar ''web'' = ''EXPO_ROUTER_IMPORT_MODE_WEB''"
    by (simp_all add: example_defs example_caller_def projectRootOf_def mode_defs)
  have a: "fst (getExpoRouterAbsoluteAppRoot (example_externals (\<lambda>r. example_config (JStr ''development'') None)) ''/p'' (example_state [(''NODE_ENV'', ''development'')])) = ''/p/src/app''"
    by (simp add: root_defs mode_defs example_defs example_caller_def)
  have e: "process_env (example_state [(''NODE_ENV'', ''development'')]) ''EXPO_PUBLIC_USE_STATIC'' = None"
    by (simp add: example_defs example_caller_def)
  show ?thesis
    using r m n a e
      assignment_target_kept [where x = "example_externals (\<lambda>r. example_config (JStr ''development'') None)" and c = example_caller and st = "(example_state [(''NODE_ENV'', ''development'')])" and a = False
        and operator = "''=''" and name = "''EXPO_PUBLIC_USE_STATIC''" and right = "Identifier ''x''"
        and ?k1.0 = False and ?k2.0 = False and v = "''../../src/app''" and st' = s1
        and plat = "''web''" and w = "''lazy''" and st'' = s2]
    by (simp add: p)
qed

text \<open>
  The claim as it was stated fails: in the file \<^verbatim>\<open>x = process.env.EXPO_PROJECT_ROOT;\<close>
  the read is not the left-hand side of the assignment, and the pass leaves it as it
  is, because the parent of the member expression is an assignment expression.
\<close>

theorem assigned_read_counterexample:
  "expoRouterBabelPlugin (example_externals (\<lambda>r. example_config (JStr ''development'') None)) example_caller (example_assigned_read ''EXPO_PROJECT_ROOT'') (example_state [(''NODE_ENV'', ''development'')])
     = (Inr (example_assigned_read ''EXPO_PROJECT_ROOT''), (example_state [(''NODE_ENV'', ''development'')]))"
  by (simp add: pass_defs example_assigned_read_def example_defs example_caller_def)

text \<open>
  Claim C8, as amended. When \<^verbatim>\<open>NODE_ENV\<close> is \<^verbatim>\<open>test\<close>, the pass leaves a read of the
  absolute and of the relative app-root variable as it is, wherever it stands. In every
  other environment, a read whose parent is not an assignment expression is replaced by
  the string of \<open>getExpoRouterAbsoluteAppRoot\<close>, and by the string of
  \<open>getExpoRouterAppRoot\<close> whenever that call returns one.
\<close>

theorem app_root_test_exemption:
  "(process_env st ''NODE_ENV'' = Some ''test'' \<longrightarrow>
      traverse x c a (envRead k1 k2 ''EXPO_ROUTER_ABS_APP_ROOT'') st
        = (Inr (envRead k1 k2 ''EXPO_ROUTER_ABS_APP_ROOT''), st) \<and>
      traverse x c a (envRead k1 k2 ''EXPO_ROUTER_APP_ROOT'') st
        = (Inr (envRead k1 k2 ''EXPO_ROUTER_APP_ROOT''), st)) \<and>
   (process_env st ''NODE_ENV'' \<noteq> Some ''test'' \<longrightarrow>
      traverse x c False (envRead k1 k2 ''EXPO_ROUTER_ABS_APP_ROOT'') st
        = (Inr (StringLiteral (fst (getExpoRouterAbsoluteAppRoot x (projectRootOf c) st))),
           snd (getExpoRouterAbsoluteAppRoot x (projectRootOf c) st)) \<and>
      (\<forall>v st'. getExpoRouterAppRoot x (projectRootOf c) st = (Inr v, st') \<longrightarrow>
         traverse x c False (envRead k1 k2 ''EXPO_ROUTER_APP_ROOT'') st
           = (Inr (StringLiteral v), st')))"
proof -
  have "process_env st ''NODE_ENV'' = Some ''test'' \<Longrightarrow>
      \<not> takesBranch c (process_env st ''NODE_ENV'') (Identifier ''EXPO_ROUTER_ABS_APP_ROOT'') a \<and>
      \<not> takesBranch c (process_env st ''NODE_ENV'') (Identifier ''EXPO_ROUTER_APP_ROOT'') a"
    by (cases "platform c") (simp_all add: takesBranch_def)
  then have "process_env st ''NODE_ENV'' = Some ''test'' \<Longrightarrow>
      traverse x c a (envRead k1 k2 ''EXPO_ROUTER_ABS_APP_ROOT'') st
        = (Inr (envRead k1 k2 ''EXPO_ROUTER_ABS_APP_ROOT''), st) \<and>
      traverse x c a (envRead k1 k2 ''EXPO_ROUTER_APP_ROOT'') st
        = (Inr (envRead k1 k2 ''EXPO_ROUTER_APP_ROOT''), st)"
    by (simp add: traverse_envRead inlineValue_None)
  moreover have "process_env st ''NODE_ENV'' \<noteq> Some ''test'' \<Longrightarrow>
      traverse x c False (envRead k1 k2 ''EXPO_ROUTER_ABS_APP_ROOT'') st
        = (Inr (StringLiteral (fst (getExpoRouterAbsoluteAppRoot x (projectRootOf c) st))),
           snd (getExpoRouterAbsoluteAppRoot x (projectRootOf c) st))"
    by (simp add: traverse_envRead inlineValue_def Let_def split_beta)
  moreover have "process_env st ''NODE_ENV'' \<noteq> Some ''test'' \<Longrightarrow>
    getExpoRouterAppRoot x (projectRootOf c) st = (Inr v, st') \<Longrightarrow>
      traverse x c False (envRead k1 k2 ''EXPO_ROUTER_APP_ROOT'') st
        = (Inr (StringLiteral v), st')" for v st'
    by (simp add: traverse_envRead inlineValue_def)
  ultimately show ?thesis by blast
qed

theorem app_root_test_exemption_witness:
  "process_env (example_state [(''NODE_ENV'', ''test'')]) ''NODE_ENV'' = Some ''test'' \<and>
   traverse (example_externals (\<lambda>r. example_config (JStr ''development'') None)) example_caller False (envRead False False ''EXPO_ROUTER_ABS_APP_ROOT'') (example_state [(''NODE_ENV'', ''test'')])
     = (Inr (envRead False False ''EXPO_ROUTER_ABS_APP_ROOT''), (example_state [(''NODE_ENV'', ''test'')])) \<and>
   traverse (example_externals (\<lambda>r. example_config (JStr ''development'') None)) example_caller False (envRead False False ''EXPO_ROUTER_APP_ROOT'') (example_state [(''NODE_ENV'', ''test'')])
     = (Inr (envRead False False ''EXPO_ROUTER_APP_ROOT''), (example_state [(''NODE_ENV'', ''test'')])) \<and>
   process_env (example_state [(''NODE_ENV'', ''development'')]) ''NODE_ENV'' \<noteq> Some ''test'' \<and>
   fst (traverse (example_externals (\<lambda>r. example_config (JStr ''development'') None)) example_caller False (envRead False False ''EXPO_ROUTER_ABS_APP_ROOT'') (example_state [(''NODE_ENV'', ''development'')]))
     = Inr (StringLiteral ''/p/src/app'') \<and>
   fst (getExpoRouterAppRoot (example_externals (\<lambda>r. example_config (JStr ''development'') None)) ''/p'' (example_state [(''NODE_ENV'', ''development'')])) = Inr ''../../src/app'' \<and>
   fst (traverse (example_externals (\<lambda>r. example_config (JStr ''development'') None)) example_caller False (envRead False False ''EXPO_ROUTER_APP_ROOT'') (example_state [(''NODE_ENV'', ''development'')]))
     = Inr (StringLiteral ''../../src/app'')"
proof -
  have "fst (getExpoRouterAppRoot (example_externals (\<lambda>r. example_config (JStr ''development'') None)) (projectRootOf example_caller) (example_state [(''NODE_ENV'', ''development'')])) = Inr ''../../src/app''"
    by (simp add: root_defs mode_defs example_defs example_caller_def)
  then obtain s1 where r: "getExpoRouterAppRoot (example_externals (\<lambda>r. example_config (JStr ''development'') None)) (projectRootOf example_caller) (example_state [(''NODE_ENV'', ''development'')])
      = (Inr ''../../src/app'', s1)"
    by (cases "getExpoRouterAppRoot (example_externals (\<lambda>r. example_config (JStr ''development'') None)) (projectRootOf example_caller) (example_state [(''NODE_ENV'', ''development'')])") simp
  have n: "process_env (example_state [(''NODE_ENV'', ''test'')]) ''NODE_ENV'' = Some ''test''"
    "process_env (example_state [(''NODE_ENV'', ''development'')]) ''NODE_ENV'' \<noteq> Some ''test''"
    by (simp_all add: example_defs example_caller_def)
  have p: "projectRootOf example_caller = ''/p''"
    by (simp add: example_defs example_caller_def projectRootOf_def)
  have a: "fst (getExpoRouterAbsoluteAppRoot (example_externals (\<lambda>r. example_config (JStr ''development'') None)) ''/p'' (example_state [(''NODE_ENV'', ''development'')])) = ''/p/src/app''"
    by (simp add: root_defs mode_defs example_defs example_caller_def)
  show ?thesis
    using r n a
      app_root_test_exemption [where x = "example_externals (\<lambda>r. example_config (JStr ''development'') None)" and c = example_caller and st = "(example_state [(''NODE_ENV'', ''test'')])" and a = False
        and ?k1.0 = False and ?k2.0 = False]
      app_root_test_exemption [where x = "example_externals (\<lambda>r. example_config (JStr ''development'') None)" and c = example_caller and st = "(example_state [(''NODE_ENV'', ''development'')])" and a = False
        and ?k1.0 = False and ?k2.0 = False]
    by (auto simp: p)
qed

text \<open>
  The claim as it was stated fails twice. Outside the test environment, the read in
  \<^verbatim>\<open>x = process.env.EXPO_ROUTER_ABS_APP_ROOT;\<close> is not rewritten, because its parent is an
  assignment expression. And the pass tests \<^verbatim>\<open>NODE_ENV\<close> alone: with \<^verbatim>\<open>NODE_ENV\<close> unset
  and \<^verbatim>\<open>BABEL_ENV\<close> set to \<^verbatim>\<open>test\<close>, the build environment that
  \<open>getExpoRouterImportMode\<close> reads is \<^verbatim>\<open>test\<close>, and the read is rewritten.
\<close>

theorem app_root_read_counterexample:
  "process_env (example_state [(''NODE_ENV'', ''development'')]) ''NODE_ENV'' \<noteq> Some ''test'' \<and>
   expoRouterBabelPlugin (example_externals (\<lambda>r. example_config (JStr ''development'') None)) example_caller (example_assigned_read ''EXPO_ROUTER_ABS_APP_ROOT'') (example_state [(''NODE_ENV'', ''development'')])
     = (Inr (example_assigned_read ''EXPO_ROUTER_ABS_APP_ROOT''), (example_state [(''NODE_ENV'', ''development'')])) \<and>
   buildEnv (example_state [(''BABEL_ENV'', ''test'')]) = Some ''test'' \<and>
   fst (expoRouterBabelPlugin (example_externals (\<lambda>r. example_config (JStr ''development'') None)) example_caller (example_read ''EXPO_ROUTER_ABS_APP_ROOT'')
          (example_state [(''BABEL_ENV'', ''test'')]))
     = Inr \<lparr>directives = [],
            body = [Other ''ExpressionStatement'' [StringLiteral ''/p/src/app'']]\<rparr>"
  by (simp add: pass_defs root_defs mode_defs example_assigned_read_def example_read_def
        example_defs example_caller_def)

text \<open>
  Claim C6. Running \<open>expoRouterBabelPlugin\<close> on the file that a first run returned
  gives that file back and leaves the process state as it is, both in the state the
  first run left behind and in the state the first run started from: no member
  expression that the pass rewrites remains.
\<close>

theorem expoRouterBabelPlugin_idempotent:
  assumes "expoRouterBabelPlugin x c p st = (Inr p', st')"
  shows "expoRouterBabelPlugin x c p' st' = (Inr p', st') \<and>
         expoRouterBabelPlugin x c p' st = (Inr p', st)"
proof -
  from assms obtain b where t: "traverse_list x c False (body p) st = (Inr b, st')"
    and p': "p' = p\<lparr>body := b\<rparr>"
    by (auto simp: expoRouterBabelPlugin_def split: prod.splits sum.splits)
  have s: "settled (traverse_list x c False b) st b st'"
    using t by (rule traverse_list_settled)
  have "traverse_list x c False b st' = (Inr b, st')"
    using settled_again [OF s, of st'] settled_env [OF s] by simp
  moreover have "traverse_list x c False b st = (Inr b, st)"
    using settled_again [OF s, of st] by simp
  ultimately show ?thesis
    by (simp add: expoRouterBabelPlugin_def p')
qed

theorem expoRouterBabelPlugin_idempotent_witness:
  "fst (expoRouterBabelPlugin (example_externals (\<lambda>r. example_config (JStr ''development'') None)) example_caller example_env_file (example_state [(''NODE_ENV'', ''development'')])) = Inr example_env_file_inlined \<and>
   expoRouterBabelPlugin (example_externals (\<lambda>r. example_config (JStr ''development'') None)) example_caller example_env_file_inlined
       (snd (expoRouterBabelPlugin (example_externals (\<lambda>r. example_config (JStr ''development'') None)) example_caller example_env_file (example_state [(''NODE_ENV'', ''development'')])))
     = (Inr example_env_file_inlined,
        snd (expoRouterBabelPlugin (example_externals (\<lambda>r. example_config (JStr ''development'') None)) example_caller example_env_file (example_state [(''NODE_ENV'', ''development'')]))) \<and>
   expoRouterBabelPlugin (example_externals (\<lambda>r. example_config (JStr ''development'') None)) example_caller example_env_file_inlined (example_state [(''NODE_ENV'', ''development'')])
     = (Inr example_env_file_inlined, (example_state [(''NODE_ENV'', ''development'')]))"
proof -
  have f: "fst (expoRouterBabelPlugin (example_externals (\<lambda>r. example_config (JStr ''development'') None)) example_caller example_env_file (example_state [(''NODE_ENV'', ''development'')]))
      = Inr example_env_file_inlined"
    by (simp add: pass_defs root_defs mode_defs example_env_file_def
          example_env_file_inlined_def example_defs example_caller_def)
  then obtain s1 where h: "expoRouterBabelPlugin (example_externals (\<lambda>r. example_config (JStr ''development'') None)) example_caller example_env_file (example_state [(''NODE_ENV'', ''development'')])
      = (Inr example_env_file_inlined, s1)"
    by (cases "expoRouterBabelPlugin (example_externals (\<lambda>r. example_config (JStr ''development'') None)) example_caller example_env_file (example_state [(''NODE_ENV'', ''development'')])") simp
  then have s1: "snd (expoRouterBabelPlugin (example_externals (\<lambda>r. example_config (JStr ''development'') None)) example_caller example_env_file (example_state [(''NODE_ENV'', ''development'')])) = s1"
    by simp
  show ?thesis
    unfolding s1 using f expoRouterBabelPlugin_idempotent [OF h] by simp
qed

end
